theory Spec2Isabelle
  imports Complex_Main "HOL-Library.Sublist" "HOL-Library.Multiset"
    "HOL-Library.Product_Lexorder" "HOL-Library.AList"
begin

section \<open>Python values used by the models\<close>

subsection \<open>decimal.Decimal\<close>

text \<open>
  A finite \<^verbatim>\<open>decimal.Decimal\<close> is the triple Python keeps: the sign, the coefficient
  (the digits read as a natural number) and the exponent. NaN and the infinities are
  left out: no DecimalField column holds them. Arithmetic runs in Python's default
  context: 28 significant digits, rounding half to even. The context's exponent limits
  (Emin, Emax = 999999) are not modelled.
\<close>

record Decimal =
  d_sign :: bool
  d_int :: nat
  d_exp :: int

definition signed_int :: "Decimal \<Rightarrow> int" where
  "signed_int d = (if d_sign d then - int (d_int d) else int (d_int d))"

text \<open>The number a Decimal denotes.\<close>

definition dec_value :: "Decimal \<Rightarrow> rat" where
  "dec_value d =
     (if 0 \<le> d_exp d then of_int (signed_int d) * 10 ^ nat (d_exp d)
      else of_int (signed_int d) / 10 ^ nat (- d_exp d))"

text \<open>\<^verbatim>\<open>Decimal.__bool__\<close>: a finite Decimal is truthy iff its coefficient is not zero.\<close>

definition bool_Decimal :: "Decimal \<Rightarrow> bool" where
  "bool_Decimal d = (d_int d \<noteq> 0)"

text \<open>Truthiness of an attribute that holds a Decimal or None.\<close>

definition truthy :: "Decimal option \<Rightarrow> bool" where
  "truthy v = (case v of None \<Rightarrow> False | Some d \<Rightarrow> bool_Decimal d)"

definition prec :: nat where
  "prec = 28"

text \<open>The number of decimal digits of the coefficient (\<^verbatim>\<open>len(self._int)\<close>).\<close>

fun ndigits :: "nat \<Rightarrow> nat" where
  "ndigits n = (if n < 10 then 1 else Suc (ndigits (n div 10)))"

text \<open>Dropping the last \<open>k\<close> digits of a coefficient, rounding half to even.\<close>

definition round_half_even :: "nat \<Rightarrow> nat \<Rightarrow> nat" where
  "round_half_even c k =
     (let q = c div 10 ^ k; r = c mod 10 ^ k
      in if 10 ^ k < 2 * r \<or> (2 * r = 10 ^ k \<and> odd q) then q + 1 else q)"

text \<open>
  \<^verbatim>\<open>Decimal._fix\<close>: a coefficient of more than \<open>prec\<close> digits is rounded to
  \<open>prec\<close> digits; when rounding carries into a further digit, the last digit (a zero) is
  dropped.
\<close>

definition dec_fix :: "Decimal \<Rightarrow> Decimal" where
  "dec_fix d =
     (if ndigits (d_int d) \<le> prec then d
      else
        let k = ndigits (d_int d) - prec;
            c = round_half_even (d_int d) k
        in if prec < ndigits c
           then d\<lparr>d_int := c div 10, d_exp := d_exp d + int k + 1\<rparr>
           else d\<lparr>d_int := c, d_exp := d_exp d + int k\<rparr>)"

definition dec_neg :: "Decimal \<Rightarrow> Decimal" where
  "dec_neg d = d\<lparr>d_sign := \<not> d_sign d\<rparr>"

text \<open>
  \<^verbatim>\<open>Decimal.__add__\<close>: the operands are aligned at the smaller exponent and added;
  the sum of two zeros is negative only when both are; a zero sum of two nonzero
  operands is positive.
\<close>

definition dec_add :: "Decimal \<Rightarrow> Decimal \<Rightarrow> Decimal" where
  "dec_add a b =
     (let e = min (d_exp a) (d_exp b);
          s = signed_int a * 10 ^ nat (d_exp a - e) + signed_int b * 10 ^ nat (d_exp b - e)
      in if d_int a = 0 \<and> d_int b = 0
         then dec_fix \<lparr>d_sign = (d_sign a \<and> d_sign b), d_int = 0, d_exp = e\<rparr>
         else dec_fix \<lparr>d_sign = (s < 0), d_int = nat \<bar>s\<bar>, d_exp = e\<rparr>)"

text \<open>\<^verbatim>\<open>Decimal.__sub__\<close> adds the negated operand.\<close>

definition dec_sub :: "Decimal \<Rightarrow> Decimal \<Rightarrow> Decimal" where
  "dec_sub a b = dec_add a (dec_neg b)"

text \<open>\<^verbatim>\<open>Decimal.__mul__\<close>: signs are xor-ed, coefficients multiplied, exponents added.\<close>

definition dec_mul :: "Decimal \<Rightarrow> Decimal \<Rightarrow> Decimal" where
  "dec_mul a b =
     dec_fix \<lparr>d_sign = (d_sign a \<noteq> d_sign b), d_int = d_int a * d_int b,
              d_exp = d_exp a + d_exp b\<rparr>"

text \<open>
  A value that a column declared \<^verbatim>\<open>DecimalField(max_digits, decimal_places)\<close> holds:
  at most \<open>decimal_places\<close> digits after the point and at most
  \<open>max_digits - decimal_places\<close> before it.
\<close>

definition in_DecimalField :: "nat \<Rightarrow> nat \<Rightarrow> Decimal \<Rightarrow> bool" where
  "in_DecimalField max_digits decimal_places d =
     (- int decimal_places \<le> d_exp d \<and>
      int (d_int d) * 10 ^ nat (d_exp d + int decimal_places) < 10 ^ max_digits)"

text \<open>
  \<^verbatim>\<open>Decimal.quantize\<close> to a number of decimal places, rounding half to even: a
  coarser value is padded with zeros, a finer one loses its last digits.
\<close>

definition dec_quantize :: "nat \<Rightarrow> Decimal \<Rightarrow> Decimal" where
  "dec_quantize decimal_places d =
     (if - int decimal_places \<le> d_exp d
      then d\<lparr>d_int := d_int d * 10 ^ nat (d_exp d + int decimal_places),
             d_exp := - int decimal_places\<rparr>
      else d\<lparr>d_int := round_half_even (d_int d) (nat (- int decimal_places - d_exp d)),
             d_exp := - int decimal_places\<rparr>)"

text \<open>A value has no nonzero digit beyond the given number of decimal places.\<close>

definition fits_scale :: "nat \<Rightarrow> Decimal \<Rightarrow> bool" where
  "fits_scale decimal_places d =
     (- int decimal_places \<le> d_exp d \<or>
      d_int d mod 10 ^ nat (- int decimal_places - d_exp d) = 0)"

subsection \<open>str() of numbers, dates and None\<close>

definition digit_char :: "nat \<Rightarrow> char" where
  "digit_char n = ''0123456789'' ! (n mod 10)"

fun str_nat :: "nat \<Rightarrow> string" where
  "str_nat n = (if n < 10 then [digit_char n] else str_nat (n div 10) @ [digit_char n])"

text \<open>The format \<^verbatim>\<open>%+d\<close>.\<close>

definition str_signed :: "int \<Rightarrow> string" where
  "str_signed i = (if i < 0 then ''-'' @ str_nat (nat (- i)) else ''+'' @ str_nat (nat i))"

text \<open>
  \<^verbatim>\<open>Decimal.__str__\<close>: plain notation when the exponent is at most zero and the
  number has fewer than six leading zeros after the point, scientific notation otherwise.
\<close>

definition str_Decimal :: "Decimal \<Rightarrow> string" where
  "str_Decimal d =
     (let digits = str_nat (d_int d);
          n = int (length digits);
          leftdigits = d_exp d + n;
          dotplace = (if d_exp d \<le> 0 \<and> - 6 < leftdigits then leftdigits else 1);
          intpart =
            (if dotplace \<le> 0 then ''0''
             else if n \<le> dotplace then digits @ replicate (nat (dotplace - n)) (CHR ''0'')
             else take (nat dotplace) digits);
          fracpart =
            (if dotplace \<le> 0 then ''.'' @ replicate (nat (- dotplace)) (CHR ''0'') @ digits
             else if n \<le> dotplace then []
             else ''.'' @ drop (nat dotplace) digits);
          exp = (if leftdigits = dotplace then [] else ''E'' @ str_signed (leftdigits - dotplace))
      in (if d_sign d then ''-'' else []) @ intpart @ fracpart @ exp)"

text \<open>\<^verbatim>\<open>str(x)\<close> of an attribute that holds a Decimal or None.\<close>

definition py_str :: "Decimal option \<Rightarrow> string" where
  "py_str v = (case v of None \<Rightarrow> ''None'' | Some d \<Rightarrow> str_Decimal d)"

record date =
  year :: nat
  month :: nat
  day :: nat

text \<open>Zero padding to a width, as \<^verbatim>\<open>%04d\<close> and \<^verbatim>\<open>%02d\<close> do.\<close>

definition zfill :: "nat \<Rightarrow> string \<Rightarrow> string" where
  "zfill w s = replicate (w - length s) (CHR ''0'') @ s"

text \<open>\<^verbatim>\<open>date.isoformat()\<close>, which is also \<^verbatim>\<open>str(date)\<close>.\<close>

definition isoformat :: "date \<Rightarrow> string" where
  "isoformat d =
     zfill 4 (str_nat (year d)) @ ''-'' @ zfill 2 (str_nat (month d)) @ ''-'' @
     zfill 2 (str_nat (day d))"

text \<open>Dates compare by year, then month, then day.\<close>

definition date_key :: "date \<Rightarrow> nat \<times> nat \<times> nat" where
  "date_key d = (year d, month d, day d)"

section \<open>models.py\<close>

datatype py_error = IntegrityError | Http404 | ValidationError

text \<open>
  An instance of \<^verbatim>\<open>XRechnungInvoice\<close>. The attributes whose truthiness or nullness
  the code tests hold a value or None; \<open>pk\<close> is the \<^verbatim>\<open>id\<close> column, None until the
  first write. Timestamps are natural numbers.
\<close>

record XRechnungInvoice =
  pk :: "nat option"
  invoice_number :: string
  invoice_date :: date
  due_date :: "date option"
  supplier_name :: string
  supplier_tax_id :: string
  buyer_name :: string
  buyer_tax_id :: string
  total_amount :: "Decimal option"
  tax_amount :: "Decimal option"
  net_amount :: "Decimal option"
  currency :: string
  xml_content :: string
  created_at :: nat
  updated_at :: nat

record XRechnungLineItem =
  item_pk :: "nat option"
  invoice_id :: nat
  position :: nat
  description :: string
  quantity :: "Decimal option"
  unit_price :: "Decimal option"
  line_total :: "Decimal option"
  tax_rate :: "Decimal option"

subsection \<open>The base class write\<close>

text \<open>
  \<^verbatim>\<open>models.Model.save\<close> belongs to the framework. It is modelled for what models.py
  declares: the table is the list of its rows in insertion order; an instance without
  a primary key, or with one that no row has, is inserted, otherwise its row is
  replaced; a write that puts None into a column declared without
  \<^verbatim>\<open>null=True\<close>, or that repeats a value declared \<^verbatim>\<open>unique\<close> or
  \<^verbatim>\<open>unique_together\<close>, raises IntegrityError and changes nothing;
  \<^verbatim>\<open>auto_now_add\<close> and \<^verbatim>\<open>auto_now\<close> set the timestamps from the clock \<open>now\<close>.
  The values an instance is given are taken to be values of their columns, and are
  stored as they are handed over. The one value that \<^verbatim>\<open>save\<close> itself computes
  finer than its column is \<^verbatim>\<open>line_total\<close>: the product of a quantity with 3 decimal
  places and a unit price with 2 has up to 5, and the column is declared
  \<^verbatim>\<open>DecimalField(max_digits=12, decimal_places=2)\<close>. The stored row therefore holds
  \<^verbatim>\<open>line_total\<close> rounded to 2 decimal places, while the instance in memory keeps
  what \<^verbatim>\<open>save\<close> assigned. A tie is rounded half to even, as the framework's own
  \<^verbatim>\<open>quantize\<close> does; some databases round a tie away from zero. What a database
  does with a value its column cannot hold at all (beyond \<^verbatim>\<open>max_digits\<close> or
  \<^verbatim>\<open>max_length\<close>) differs between backends and is not modelled, nor are
  foreign-key checks and transactions.
\<close>

definition fresh_pk :: "nat option list \<Rightarrow> nat" where
  "fresh_pk ks = Suc (fold (\<lambda>k m. case k of None \<Rightarrow> m | Some i \<Rightarrow> max i m) ks 0)"

definition insert_invoice ::
  "nat \<Rightarrow> XRechnungInvoice list \<Rightarrow> XRechnungInvoice \<Rightarrow> nat \<Rightarrow>
   py_error + (XRechnungInvoice list \<times> XRechnungInvoice)" where
  "insert_invoice now tbl self k =
     (if \<exists>r \<in> set tbl. invoice_number r = invoice_number self then Inl IntegrityError
      else
        let self' = self\<lparr>pk := Some k, created_at := now, updated_at := now\<rparr>
        in Inr (tbl @ [self'], self'))"

definition update_invoice ::
  "nat \<Rightarrow> XRechnungInvoice list \<Rightarrow> XRechnungInvoice \<Rightarrow> nat \<Rightarrow>
   py_error + (XRechnungInvoice list \<times> XRechnungInvoice)" where
  "update_invoice now tbl self k =
     (if \<exists>r \<in> set tbl. pk r \<noteq> Some k \<and> invoice_number r = invoice_number self
      then Inl IntegrityError
      else
        let self' = self\<lparr>updated_at := now\<rparr>
        in Inr (map (\<lambda>r. if pk r = Some k then self' else r) tbl, self'))"

definition Model_save_invoice ::
  "nat \<Rightarrow> XRechnungInvoice list \<Rightarrow> XRechnungInvoice \<Rightarrow>
   py_error + (XRechnungInvoice list \<times> XRechnungInvoice)" where
  "Model_save_invoice now tbl self =
     (if total_amount self = None \<or> tax_amount self = None then Inl IntegrityError
      else
        case pk self of
          None \<Rightarrow> insert_invoice now tbl self (fresh_pk (map pk tbl))
        | Some k \<Rightarrow>
            if \<exists>r \<in> set tbl. pk r = Some k then update_invoice now tbl self k
            else insert_invoice now tbl self k)"

text \<open>The row that is written for a line item: its \<^verbatim>\<open>line_total\<close> at the column's scale.\<close>

definition line_item_row :: "XRechnungLineItem \<Rightarrow> XRechnungLineItem" where
  "line_item_row self = self\<lparr>line_total := map_option (dec_quantize 2) (line_total self)\<rparr>"

definition insert_line_item ::
  "XRechnungLineItem list \<Rightarrow> XRechnungLineItem \<Rightarrow> nat \<Rightarrow>
   py_error + (XRechnungLineItem list \<times> XRechnungLineItem)" where
  "insert_line_item tbl self k =
     (if \<exists>r \<in> set tbl. invoice_id r = invoice_id self \<and> position r = position self
      then Inl IntegrityError
      else
        let self' = self\<lparr>item_pk := Some k\<rparr>
        in Inr (tbl @ [line_item_row self'], self'))"

definition update_line_item ::
  "XRechnungLineItem list \<Rightarrow> XRechnungLineItem \<Rightarrow> nat \<Rightarrow>
   py_error + (XRechnungLineItem list \<times> XRechnungLineItem)" where
  "update_line_item tbl self k =
     (if \<exists>r \<in> set tbl. item_pk r \<noteq> Some k \<and> invoice_id r = invoice_id self \<and>
           position r = position self
      then Inl IntegrityError
      else Inr (map (\<lambda>r. if item_pk r = Some k then line_item_row self else r) tbl, self))"

definition Model_save_line_item ::
  "XRechnungLineItem list \<Rightarrow> XRechnungLineItem \<Rightarrow>
   py_error + (XRechnungLineItem list \<times> XRechnungLineItem)" where
  "Model_save_line_item tbl self =
     (if quantity self = None \<or> unit_price self = None \<or> tax_rate self = None
      then Inl IntegrityError
      else
        case item_pk self of
          None \<Rightarrow> insert_line_item tbl self (fresh_pk (map item_pk tbl))
        | Some k \<Rightarrow>
            if \<exists>r \<in> set tbl. item_pk r = Some k then update_line_item tbl self k
            else insert_line_item tbl self k)"

subsection \<open>XRechnungInvoice.save and XRechnungLineItem.save\<close>

text \<open>
  \<^verbatim>\<open>
  def save(self, *args, **kwargs):
      if self.net_amount is None and self.total_amount and self.tax_amount:
          self.net_amount = self.total_amount - self.tax_amount
      super().save(*args, **kwargs)
  \<close>
  The guard is true only when both amounts hold a Decimal, so \<open>the\<close> is applied to
  \<open>Some\<close> values only.
\<close>

definition XRechnungInvoice_save ::
  "nat \<Rightarrow> XRechnungInvoice list \<Rightarrow> XRechnungInvoice \<Rightarrow>
   py_error + (XRechnungInvoice list \<times> XRechnungInvoice)" where
  "XRechnungInvoice_save now tbl self =
     (let self' =
        (if net_amount self = None \<and> truthy (total_amount self) \<and> truthy (tax_amount self)
         then self\<lparr>net_amount :=
                Some (dec_sub (the (total_amount self)) (the (tax_amount self)))\<rparr>
         else self)
      in Model_save_invoice now tbl self')"

text \<open>
  \<^verbatim>\<open>
  def save(self, *args, **kwargs):
      if self.line_total is None and self.quantity and self.unit_price:
          self.line_total = self.quantity * self.unit_price
      super().save(*args, **kwargs)
  \<close>
\<close>

definition XRechnungLineItem_save ::
  "XRechnungLineItem list \<Rightarrow> XRechnungLineItem \<Rightarrow>
   py_error + (XRechnungLineItem list \<times> XRechnungLineItem)" where
  "XRechnungLineItem_save tbl self =
     (let self' =
        (if line_total self = None \<and> truthy (quantity self) \<and> truthy (unit_price self)
         then self\<lparr>line_total :=
                Some (dec_mul (the (quantity self)) (the (unit_price self)))\<rparr>
         else self)
      in Model_save_line_item tbl self')"

section \<open>config.py\<close>

text \<open>
  A configuration is a Python dict from option names to values; it is kept as an
  association list. \<^verbatim>\<open>dict.update\<close> overwrites the keys the other dict has and adds
  the new ones.
\<close>

datatype config_value =
    CStr string
  | CInt int
  | CFloat rat
  | CBool bool
  | CDict "(string \<times> string) list"

type_synonym config_dict = "(string \<times> config_value) list"

definition DEFAULT_CONFIG :: config_dict where
  "DEFAULT_CONFIG =
     [(''CURRENCY'', CStr ''EUR''),
      (''DEFAULT_TAX_RATE'', CFloat 19),
      (''PAGINATION_SIZE'', CInt 20),
      (''XML_VALIDATION'', CBool True),
      (''REQUIRE_TAX_ID'', CBool False),
      (''DATE_FORMAT'', CStr ''%Y-%m-%d''),
      (''DECIMAL_PLACES'', CInt 2),
      (''MAX_INVOICE_NUMBER_LENGTH'', CInt 100),
      (''ALLOW_NEGATIVE_AMOUNTS'', CBool False),
      (''XML_NAMESPACE'', CDict
         [(''ubl'', ''urn:oasis:names:specification:ubl:schema:xsd:Invoice-2''),
          (''cac'', ''urn:oasis:names:specification:ubl:schema:xsd:CommonAggregateComponents-2''),
          (''cbc'', ''urn:oasis:names:specification:ubl:schema:xsd:CommonBasicComponents-2'')])]"

definition dict_update :: "config_dict \<Rightarrow> config_dict \<Rightarrow> config_dict" where
  "dict_update d other = fold (\<lambda>(k, v). AList.update k v) other d"

text \<open>
  \<^verbatim>\<open>_load_config\<close>. Its two inputs are what the environment provides: the dict
  \<^verbatim>\<open>settings.DJANGO_XRECHNUNG\<close> (empty when the setting is absent) and the dict
  \<^verbatim>\<open>_load_from_pyproject\<close> returns (the table \<^verbatim>\<open>[tool.django-xrechnung]\<close> of
  pyproject.toml, empty when the file or a TOML parser is missing or unreadable).
\<close>

definition load_config :: "config_dict \<Rightarrow> config_dict \<Rightarrow> config_dict" where
  "load_config django_config pyproject_config =
     (let config = dict_update DEFAULT_CONFIG django_config
      in if pyproject_config \<noteq> [] then dict_update config pyproject_config else config)"

definition config_get :: "config_dict \<Rightarrow> string \<Rightarrow> config_value \<Rightarrow> config_value" where
  "config_get config key dflt = (case map_of config key of None \<Rightarrow> dflt | Some v \<Rightarrow> v)"

text \<open>The property \<^verbatim>\<open>pagination_size\<close>: "Get the pagination size for list views."\<close>

definition pagination_size :: "config_dict \<Rightarrow> config_value" where
  "pagination_size config = config_get config ''PAGINATION_SIZE'' (CInt 20)"

section \<open>admin.py\<close>

definition readonly_fields :: "string list" where
  "readonly_fields = [''created_at'', ''updated_at'', ''net_amount'']"

text \<open>
  \<^verbatim>\<open>
  def get_readonly_fields(self, request, obj=None):
      readonly = list(self.readonly_fields)
      if obj:  # Editing an existing object
          readonly.extend(["invoice_number"])
      return readonly
  \<close>
  A model instance is truthy, so the test is whether an instance was passed.
\<close>

definition get_readonly_fields :: "'r \<Rightarrow> XRechnungInvoice option \<Rightarrow> string list" where
  "get_readonly_fields request obj =
     (let readonly = readonly_fields
      in if obj \<noteq> None then readonly @ [''invoice_number''] else readonly)"

section \<open>views.py\<close>

text \<open>
  Of a request the views read the method, whether the user is authenticated, and the
  query parameters (\<^verbatim>\<open>request.GET.get(key)\<close> is None for a missing key).
\<close>

record request =
  http_method :: string
  user_is_authenticated :: bool
  GET :: "string \<Rightarrow> string option"

text \<open>Truthiness of a query parameter: present and not the empty string.\<close>

definition truthy_str :: "string option \<Rightarrow> bool" where
  "truthy_str v = (case v of None \<Rightarrow> False | Some s \<Rightarrow> s \<noteq> [])"

subsection \<open>Query sets\<close>

text \<open>
  The lookup \<^verbatim>\<open>supplier_name__icontains\<close>: the value occurs in the column as a
  contiguous substring, letters compared without case. Strings are byte strings here
  and the case of the 26 ASCII letters is folded; what a database does beyond ASCII
  differs between backends and is not modelled.
\<close>

definition ascii_lower :: "char \<Rightarrow> char" where
  "ascii_lower c =
     (case map_of (zip ''ABCDEFGHIJKLMNOPQRSTUVWXYZ'' ''abcdefghijklmnopqrstuvwxyz'') c of
        None \<Rightarrow> c
      | Some l \<Rightarrow> l)"

definition icontains :: "string \<Rightarrow> string \<Rightarrow> bool" where
  "icontains column v = sublist (map ascii_lower v) (map ascii_lower column)"

text \<open>
  \<^verbatim>\<open>ordering = ["-invoice_date", "-created_at"]\<close>: later invoice dates first, and
  among equal dates later creation times first. Rows that agree on both keep their
  table order (a database leaves their order open).
\<close>

definition ordering_key :: "XRechnungInvoice \<Rightarrow> (nat \<times> nat \<times> nat) \<times> nat" where
  "ordering_key i = (date_key (invoice_date i), created_at i)"

fun insert_ordered :: "XRechnungInvoice \<Rightarrow> XRechnungInvoice list \<Rightarrow> XRechnungInvoice list" where
  "insert_ordered x [] = [x]"
| "insert_ordered x (y # ys) =
     (if ordering_key y \<le> ordering_key x then x # y # ys else y # insert_ordered x ys)"

definition Meta_ordering :: "XRechnungInvoice list \<Rightarrow> XRechnungInvoice list" where
  "Meta_ordering rows = foldr insert_ordered rows []"

text \<open>
  A filter on \<^verbatim>\<open>invoice_date\<close> is given the text of the query parameter; the
  framework's \<^verbatim>\<open>DateField.to_python\<close> turns it into a date or raises
  ValidationError. It is a parameter of the model: \<open>to_python s = None\<close> stands for
  the exception.
\<close>

definition filter_invoice_date ::
  "(string \<Rightarrow> date option) \<Rightarrow> (date \<Rightarrow> date \<Rightarrow> bool) \<Rightarrow> string \<Rightarrow>
   XRechnungInvoice list \<Rightarrow> py_error + XRechnungInvoice list" where
  "filter_invoice_date to_python cmp v queryset =
     (case to_python v of
        None \<Rightarrow> Inl ValidationError
      | Some d \<Rightarrow> Inr (filter (\<lambda>i. cmp (invoice_date i) d) queryset))"

definition date_gte :: "date \<Rightarrow> date \<Rightarrow> bool" where
  "date_gte a b = (date_key b \<le> date_key a)"

definition date_lte :: "date \<Rightarrow> date \<Rightarrow> bool" where
  "date_lte a b = (date_key a \<le> date_key b)"

subsection \<open>XRechnungInvoiceListView\<close>

definition paginate_by :: nat where
  "paginate_by = 20"

text \<open>
  \<^verbatim>\<open>
  def get_queryset(self):
      queryset = super().get_queryset()
      supplier = self.request.GET.get("supplier")
      if supplier:
          queryset = queryset.filter(supplier_name__icontains=supplier)
      start_date = self.request.GET.get("start_date")
      end_date = self.request.GET.get("end_date")
      if start_date:
          queryset = queryset.filter(invoice_date__gte=start_date)
      if end_date:
          queryset = queryset.filter(invoice_date__lte=end_date)
      return queryset
  \<close>
  \<^verbatim>\<open>super().get_queryset()\<close> is all rows of the model in its Meta ordering.
\<close>

definition get_queryset ::
  "(string \<Rightarrow> date option) \<Rightarrow> request \<Rightarrow> XRechnungInvoice list \<Rightarrow>
   py_error + XRechnungInvoice list" where
  "get_queryset to_python req tbl =
     (let queryset = Meta_ordering tbl;
          supplier = GET req ''supplier'';
          queryset =
            (if truthy_str supplier
             then filter (\<lambda>i. icontains (supplier_name i) (the supplier)) queryset
             else queryset);
          start_date = GET req ''start_date'';
          end_date = GET req ''end_date''
      in case (if truthy_str start_date
               then filter_invoice_date to_python date_gte (the start_date) queryset
               else Inr queryset) of
           Inl e \<Rightarrow> Inl e
         | Inr queryset \<Rightarrow>
             if truthy_str end_date
             then filter_invoice_date to_python date_lte (the end_date) queryset
             else Inr queryset)"

subsection \<open>XRechnungInvoiceApiView\<close>

datatype json =
    JNull
  | JInt int
  | JStr string
  | JList "json list"
  | JDict "(string \<times> json) list"

text \<open>
  The responses the API views build: \<^verbatim>\<open>HttpResponse(content, content_type, headers)\<close>,
  \<^verbatim>\<open>JsonResponse(data, status)\<close>, and the 405 of \<^verbatim>\<open>require_http_methods\<close>.
\<close>

datatype response =
    HttpResponse string string "(string \<times> string) list"
  | JsonResponse json nat
  | HttpResponseNotAllowed "string list"

definition get_object_or_404 :: "XRechnungInvoice list \<Rightarrow> nat \<Rightarrow> py_error + XRechnungInvoice" where
  "get_object_or_404 tbl k =
     (case find (\<lambda>r. pk r = Some k) tbl of None \<Rightarrow> Inl Http404 | Some r \<Rightarrow> Inr r)"

text \<open>
  \<^verbatim>\<open>invoice.line_items.all()\<close>: the line items of the invoice in their Meta ordering,
  by position.
\<close>

definition line_items_all :: "XRechnungLineItem list \<Rightarrow> nat \<Rightarrow> XRechnungLineItem list" where
  "line_items_all items k = sort_key position (filter (\<lambda>i. invoice_id i = k) items)"

definition isoformat_or_None :: "date option \<Rightarrow> json" where
  "isoformat_or_None d = (case d of None \<Rightarrow> JNull | Some v \<Rightarrow> JStr (isoformat v))"

definition line_item_data :: "XRechnungLineItem \<Rightarrow> (string \<times> json) list" where
  "line_item_data item =
     [(''position'', JInt (int (position item))),
      (''description'', JStr (description item)),
      (''quantity'', JStr (py_str (quantity item))),
      (''unit_price'', JStr (py_str (unit_price item))),
      (''line_total'', JStr (py_str (line_total item))),
      (''tax_rate'', JStr (py_str (tax_rate item)))]"

definition invoice_data :: "XRechnungInvoice \<Rightarrow> XRechnungLineItem list \<Rightarrow> (string \<times> json) list" where
  "invoice_data invoice items =
     [(''id'', (case pk invoice of None \<Rightarrow> JNull | Some i \<Rightarrow> JInt (int i))),
      (''invoice_number'', JStr (invoice_number invoice)),
      (''invoice_date'', JStr (isoformat (invoice_date invoice))),
      (''due_date'', isoformat_or_None (due_date invoice)),
      (''supplier_name'', JStr (supplier_name invoice)),
      (''supplier_tax_id'', JStr (supplier_tax_id invoice)),
      (''buyer_name'', JStr (buyer_name invoice)),
      (''buyer_tax_id'', JStr (buyer_tax_id invoice)),
      (''total_amount'', JStr (py_str (total_amount invoice))),
      (''tax_amount'', JStr (py_str (tax_amount invoice))),
      (''net_amount'', JStr (py_str (net_amount invoice))),
      (''currency'', JStr (currency invoice)),
      (''line_items'', JList (map (\<lambda>item. JDict (line_item_data item)) items))]"

text \<open>
  \<^verbatim>\<open>invoice_detail_api(request, pk)\<close>, under \<^verbatim>\<open>require_http_methods(["GET"])\<close>.
\<close>

definition invoice_detail_api ::
  "request \<Rightarrow> XRechnungInvoice list \<Rightarrow> XRechnungLineItem list \<Rightarrow> nat \<Rightarrow> py_error + response" where
  "invoice_detail_api req tbl items k =
     (if http_method req \<noteq> ''GET'' then Inr (HttpResponseNotAllowed [''GET''])
      else if \<not> user_is_authenticated req
      then Inr (JsonResponse (JDict [(''error'', JStr ''Authentication required'')]) 401)
      else
        case get_object_or_404 tbl k of
          Inl e \<Rightarrow> Inl e
        | Inr invoice \<Rightarrow>
            Inr (JsonResponse (JDict (invoice_data invoice (line_items_all items k))) 200))"

text \<open>The header both branches of the export set.\<close>

definition content_disposition :: "XRechnungInvoice \<Rightarrow> (string \<times> string) list" where
  \<open>content_disposition invoice =
     [(''Content-Disposition'',
       ''attachment; filename="invoice_'' @ invoice_number invoice @ ''.xml"'')]\<close>

text \<open>
  The f-string of the second branch. \<^verbatim>\<open>{invoice.invoice_date}\<close> formats the date
  with \<^verbatim>\<open>str\<close>, \<^verbatim>\<open>{invoice.total_amount}\<close> the Decimal with \<^verbatim>\<open>str\<close>; the
  strings are inserted as they are.
\<close>

definition basic_xml :: "XRechnungInvoice \<Rightarrow> string" where
  \<open>basic_xml invoice =
     ''<?xml version="1.0" encoding="UTF-8"?>\<newline>'' @
     ''<Invoice>\<newline>'' @
     ''    <InvoiceNumber>'' @ invoice_number invoice @ ''</InvoiceNumber>\<newline>'' @
     ''    <InvoiceDate>'' @ isoformat (invoice_date invoice) @ ''</InvoiceDate>\<newline>'' @
     ''    <Supplier>\<newline>'' @
     ''        <Name>'' @ supplier_name invoice @ ''</Name>\<newline>'' @
     ''        <TaxID>'' @ supplier_tax_id invoice @ ''</TaxID>\<newline>'' @
     ''    </Supplier>\<newline>'' @
     ''    <Buyer>\<newline>'' @
     ''        <Name>'' @ buyer_name invoice @ ''</Name>\<newline>'' @
     ''        <TaxID>'' @ buyer_tax_id invoice @ ''</TaxID>\<newline>'' @
     ''    </Buyer>\<newline>'' @
     ''    <TotalAmount currency="'' @ currency invoice @ ''">'' @
       py_str (total_amount invoice) @ ''</TotalAmount>\<newline>'' @
     ''</Invoice>''\<close>

text \<open>
  \<^verbatim>\<open>invoice_xml_export(request, pk)\<close>, under \<^verbatim>\<open>require_http_methods(["GET"])\<close>;
  it does not look at the user.
\<close>

definition invoice_xml_export ::
  "request \<Rightarrow> XRechnungInvoice list \<Rightarrow> nat \<Rightarrow> py_error + response" where
  "invoice_xml_export req tbl k =
     (if http_method req \<noteq> ''GET'' then Inr (HttpResponseNotAllowed [''GET''])
      else
        case get_object_or_404 tbl k of
          Inl e \<Rightarrow> Inl e
        | Inr invoice \<Rightarrow>
            if xml_content invoice \<noteq> []
            then Inr (HttpResponse (xml_content invoice) ''application/xml''
                       (content_disposition invoice))
            else
              let xml_content = basic_xml invoice
              in Inr (HttpResponse xml_content ''application/xml''
                        (content_disposition invoice)))"

section \<open>What the claims say, in the terms of the model\<close>

text \<open>
  One invoice comes before another in the listing when its invoice date is later, or
  the dates are equal and it was created later (or at the same time).
\<close>

definition comes_before :: "XRechnungInvoice \<Rightarrow> XRechnungInvoice \<Rightarrow> bool" where
  "comes_before a b = (ordering_key b \<le> ordering_key a)"

text \<open>
  The invoices a listing is asked for: the supplier name contains the given string
  without regard to case, and the invoice date lies within the inclusive bounds; a
  parameter that is not given constrains nothing.
\<close>

definition matches :: "string option \<Rightarrow> date option \<Rightarrow> date option \<Rightarrow> XRechnungInvoice \<Rightarrow> bool" where
  "matches supplier lo hi i =
     ((case supplier of None \<Rightarrow> True | Some s \<Rightarrow> icontains (supplier_name i) s) \<and>
      (case lo of None \<Rightarrow> True | Some d \<Rightarrow> date_key d \<le> date_key (invoice_date i)) \<and>
      (case hi of None \<Rightarrow> True | Some d \<Rightarrow> date_key (invoice_date i) \<le> date_key d))"

text \<open>A query parameter as the view reads it: absent when missing or empty.\<close>

definition param :: "request \<Rightarrow> string \<Rightarrow> string option" where
  "param req k = (if truthy_str (GET req k) then GET req k else None)"

text \<open>
  A document shows an invoice when it contains, as text between the tags, the invoice
  number, the invoice date, the name and tax id of the supplier and of the buyer, and
  the total amount under a currency attribute. The values stand as they are stored:
  nothing is escaped.
\<close>

definition document_of :: "XRechnungInvoice \<Rightarrow> string \<Rightarrow> bool" where
  \<open>document_of invoice body =
     (sublist (''<InvoiceNumber>'' @ invoice_number invoice @ ''</InvoiceNumber>'') body \<and>
      sublist (''<InvoiceDate>'' @ isoformat (invoice_date invoice) @ ''</InvoiceDate>'') body \<and>
      sublist (''<Supplier>\<newline>        <Name>'' @ supplier_name invoice @
        ''</Name>\<newline>        <TaxID>'' @ supplier_tax_id invoice @
        ''</TaxID>\<newline>    </Supplier>'') body \<and>
      sublist (''<Buyer>\<newline>        <Name>'' @ buyer_name invoice @
        ''</Name>\<newline>        <TaxID>'' @ buyer_tax_id invoice @
        ''</TaxID>\<newline>    </Buyer>'') body \<and>
      sublist (''<TotalAmount currency="'' @ currency invoice @ ''">'' @
        py_str (total_amount invoice) @ ''</TotalAmount>'') body)\<close>

section \<open>Instances built by the test suite\<close>

text \<open>
  \<^verbatim>\<open>XRechnungInvoice(invoice_number=..., invoice_date=..., supplier_name=...,
  buyer_name=..., total_amount=...)\<close>: the attributes that are not given take the
  defaults models.py declares (\<^verbatim>\<open>tax_amount\<close> 0, \<^verbatim>\<open>currency\<close> "EUR"). The
  default of \<^verbatim>\<open>tax_amount\<close> is the integer 0; it is kept as the Decimal 0, which
  is falsy as well and subtracts to the same Decimal.
\<close>

definition Decimal_0 :: Decimal where
  "Decimal_0 = \<lparr>d_sign = False, d_int = 0, d_exp = 0\<rparr>"

definition XRechnungInvoice_init ::
  "string \<Rightarrow> date \<Rightarrow> string \<Rightarrow> string \<Rightarrow> Decimal \<Rightarrow> XRechnungInvoice" where
  "XRechnungInvoice_init number d supplier buyer amount =
     \<lparr>pk = None, invoice_number = number, invoice_date = d, due_date = None,
      supplier_name = supplier, supplier_tax_id = [], buyer_name = buyer, buyer_tax_id = [],
      total_amount = Some amount, tax_amount = Some Decimal_0, net_amount = None,
      currency = ''EUR'', xml_content = [], created_at = 0, updated_at = 0\<rparr>"

text \<open>
  \<^verbatim>\<open>XRechnungLineItem(invoice=..., position=..., description=..., unit_price=...)\<close>,
  with the defaults \<^verbatim>\<open>quantity\<close> 1 and \<^verbatim>\<open>tax_rate\<close> 19.00, kept as Decimals.
\<close>

definition XRechnungLineItem_init ::
  "nat \<Rightarrow> nat \<Rightarrow> string \<Rightarrow> Decimal \<Rightarrow> XRechnungLineItem" where
  "XRechnungLineItem_init owner pos descr price =
     \<lparr>item_pk = None, invoice_id = owner, position = pos, description = descr,
      quantity = Some \<lparr>d_sign = False, d_int = 1, d_exp = 0\<rparr>, unit_price = Some price,
      line_total = None,
      tax_rate = Some \<lparr>d_sign = False, d_int = 1900, d_exp = - 2\<rparr>\<rparr>"

definition today :: date where
  "today = \<lparr>year = 2024, month = 3, day = 15\<rparr>"

text \<open>\<^verbatim>\<open>Decimal("119.00")\<close>, \<^verbatim>\<open>Decimal("19.00")\<close> and \<^verbatim>\<open>Decimal("100.00")\<close>.\<close>

definition Decimal_119_00 :: Decimal where
  "Decimal_119_00 = \<lparr>d_sign = False, d_int = 11900, d_exp = - 2\<rparr>"

definition Decimal_19_00 :: Decimal where
  "Decimal_19_00 = \<lparr>d_sign = False, d_int = 1900, d_exp = - 2\<rparr>"

definition Decimal_100_00 :: Decimal where
  "Decimal_100_00 = \<lparr>d_sign = False, d_int = 10000, d_exp = - 2\<rparr>"

text \<open>test_auto_calculate_net_amount: total 119.00, tax 19.00, no net amount.\<close>

definition invoice_2024_002 :: XRechnungInvoice where
  "invoice_2024_002 =
     (XRechnungInvoice_init ''INV-2024-002'' today ''Test Supplier'' ''Test Buyer''
        Decimal_119_00)
     \<lparr>tax_amount := Some Decimal_19_00\<rparr>"

text \<open>What the first save of that instance at time 7 into an empty table stores.\<close>

definition invoice_2024_002_saved :: XRechnungInvoice where
  "invoice_2024_002_saved =
     invoice_2024_002\<lparr>pk := Some 1, net_amount := Some Decimal_100_00,
       created_at := 7, updated_at := 7\<rparr>"

text \<open>test_create_line_item: total 119.00, neither tax nor net amount given.\<close>

definition invoice_2024_005 :: XRechnungInvoice where
  "invoice_2024_005 =
     XRechnungInvoice_init ''INV-2024-005'' today ''Test Supplier'' ''Test Buyer''
       Decimal_119_00"

text \<open>
  test_auto_calculate_line_total: quantity \<^verbatim>\<open>Decimal("3.0")\<close>, unit price
  \<^verbatim>\<open>Decimal("25.00")\<close>, no line total, under the invoice with primary key 1.
\<close>

definition line_item_3_x_25 :: XRechnungLineItem where
  "line_item_3_x_25 =
     (XRechnungLineItem_init 1 1 ''Test Product'' \<lparr>d_sign = False, d_int = 2500, d_exp = - 2\<rparr>)
     \<lparr>quantity := Some \<lparr>d_sign = False, d_int = 30, d_exp = - 1\<rparr>\<rparr>"

text \<open>
  A line item whose product has more than 2 decimal places: quantity
  \<^verbatim>\<open>Decimal("1.005")\<close>, unit price \<^verbatim>\<open>Decimal("9.99")\<close>, no line total.
\<close>

definition line_item_1_005_x_9_99 :: XRechnungLineItem where
  "line_item_1_005_x_9_99 =
     (XRechnungLineItem_init 1 1 ''Test Product'' \<lparr>d_sign = False, d_int = 999, d_exp = - 2\<rparr>)
     \<lparr>quantity := Some \<lparr>d_sign = False, d_int = 1005, d_exp = - 3\<rparr>\<rparr>"

text \<open>
  The set-up of the view tests: INV-TEST-001 (net amount given) saved at time 5, then
  INV-TEST-002 of test_invoice_list_filtering (no tax, no net amount) saved at time 6.
\<close>

definition invoice_test_001 :: XRechnungInvoice where
  "invoice_test_001 =
     (XRechnungInvoice_init ''INV-TEST-001'' today ''Test Supplier Ltd.'' ''Test Buyer Inc.''
        Decimal_119_00)
     \<lparr>tax_amount := Some Decimal_19_00, net_amount := Some Decimal_100_00\<rparr>"

definition invoice_test_001_saved :: XRechnungInvoice where
  "invoice_test_001_saved = invoice_test_001\<lparr>pk := Some 1, created_at := 5, updated_at := 5\<rparr>"

definition Decimal_200_00 :: Decimal where
  "Decimal_200_00 = \<lparr>d_sign = False, d_int = 20000, d_exp = - 2\<rparr>"

definition invoice_test_002 :: XRechnungInvoice where
  "invoice_test_002 =
     XRechnungInvoice_init ''INV-TEST-002'' today ''Another Supplier'' ''Test Buyer Inc.''
       Decimal_200_00"

definition invoice_test_002_saved :: XRechnungInvoice where
  "invoice_test_002_saved = invoice_test_002\<lparr>pk := Some 2, created_at := 6, updated_at := 6\<rparr>"

text \<open>A stored invoice that carries its own XML.\<close>

definition invoice_test_003_saved :: XRechnungInvoice where
  "invoice_test_003_saved =
     invoice_test_002_saved
       \<lparr>pk := Some 3, invoice_number := ''INV-TEST-003'',
        xml_content := ''<Invoice><ID>INV-TEST-003</ID></Invoice>''\<rparr>"

definition test_invoices :: "XRechnungInvoice list" where
  "test_invoices = [invoice_test_001_saved, invoice_test_002_saved]"

text \<open>A line item with unit price 0.00 under invoice 2, and what its save stores.\<close>

definition free_line_item :: XRechnungLineItem where
  "free_line_item =
     XRechnungLineItem_init 2 1 ''Free sample'' \<lparr>d_sign = False, d_int = 0, d_exp = - 2\<rparr>"

definition free_line_item_saved :: XRechnungLineItem where
  "free_line_item_saved = free_line_item\<lparr>item_pk := Some 1\<rparr>"

text \<open>A stand-in for the framework's date parser that knows one date.\<close>

definition to_python_fixture :: "string \<Rightarrow> date option" where
  "to_python_fixture s = (if s = ''2024-03-15'' then Some today else None)"

text \<open>A GET request with the given query parameters.\<close>

definition GET_request :: "bool \<Rightarrow> (string \<times> string) list \<Rightarrow> request" where
  "GET_request auth params =
     \<lparr>http_method = ''GET'', user_is_authenticated = auth, GET = map_of params\<rparr>"

text \<open>test_unique_invoice_number and test_unique_position_per_invoice.\<close>

definition invoice_2024_004 :: XRechnungInvoice where
  "invoice_2024_004 =
     XRechnungInvoice_init ''INV-2024-004'' today ''Test Supplier 1'' ''Test Buyer 1''
       Decimal_100_00"

definition invoice_2024_004_again :: XRechnungInvoice where
  "invoice_2024_004_again =
     XRechnungInvoice_init ''INV-2024-004'' today ''Test Supplier 2'' ''Test Buyer 2''
       Decimal_200_00"

definition product_1 :: XRechnungLineItem where
  "product_1 =
     (XRechnungLineItem_init 1 1 ''Test Product 1'' \<lparr>d_sign = False, d_int = 5000, d_exp = - 2\<rparr>)
     \<lparr>quantity := Some \<lparr>d_sign = False, d_int = 10, d_exp = - 1\<rparr>,
      line_total := Some \<lparr>d_sign = False, d_int = 5000, d_exp = - 2\<rparr>\<rparr>"

definition product_2 :: XRechnungLineItem where
  "product_2 =
     (XRechnungLineItem_init 1 1 ''Test Product 2'' \<lparr>d_sign = False, d_int = 6000, d_exp = - 2\<rparr>)
     \<lparr>quantity := Some \<lparr>d_sign = False, d_int = 10, d_exp = - 1\<rparr>,
      line_total := Some \<lparr>d_sign = False, d_int = 6000, d_exp = - 2\<rparr>\<rparr>"

section \<open>Decimal arithmetic is exact on the declared columns\<close>

lemma ndigits_pos: "0 < ndigits n"
  by (subst ndigits.simps) simp

lemma ndigits_le_iff: "0 < k \<Longrightarrow> ndigits n \<le> k \<longleftrightarrow> n < 10 ^ k"
proof (induction n arbitrary: k rule: ndigits.induct)
  case (1 n)
  show ?case
  proof (cases "n < 10")
    case True
    have "(10::nat) ^ 1 \<le> 10 ^ k" using "1.prems" by (intro power_increasing) auto
    with True "1.prems" show ?thesis by (simp del: ndigits.simps add: ndigits.simps[of n])
  next
    case False
    obtain j where k: "k = Suc j" using "1.prems" by (cases k) auto
    show ?thesis
    proof (cases "j = 0")
      case True
      with False k ndigits_pos[of "n div 10"] show ?thesis
        by (simp del: ndigits.simps add: ndigits.simps[of n])
    next
      case j: False
      have "ndigits (n div 10) \<le> j \<longleftrightarrow> n div 10 < 10 ^ j"
        using "1.IH"[OF False, of j] j by simp
      moreover have "n div 10 < 10 ^ j \<longleftrightarrow> n < 10 ^ Suc j"
        by (simp add: less_mult_imp_div_less div_less_iff_less_mult mult.commute)
      ultimately show ?thesis using False k
        by (simp del: ndigits.simps add: ndigits.simps[of n])
    qed
  qed
qed

lemma dec_fix_small: "d_int d < 10 ^ 28 \<Longrightarrow> dec_fix d = d"
  using ndigits_le_iff[of 28 "d_int d"] by (simp add: dec_fix_def prec_def del: ndigits.simps)

lemma dec_value_powi: "dec_value d = of_int (signed_int d) * power_int 10 (d_exp d)"
  by (simp add: dec_value_def power_int_def field_simps)

lemma dec_value_of_signed:
  "dec_value \<lparr>d_sign = (s < 0), d_int = nat \<bar>s\<bar>, d_exp = e\<rparr> = of_int s * power_int 10 e"
  by (simp add: dec_value_powi signed_int_def)

lemma aligned_value:
  "e \<le> d_exp d \<Longrightarrow>
   of_int (signed_int d * 10 ^ nat (d_exp d - e)) * power_int (10::rat) e = dec_value d"
proof -
  assume le: "e \<le> d_exp d"
  have "power_int (10::rat) (d_exp d) = power_int 10 (d_exp d - e) * power_int 10 e"
    by (simp flip: power_int_add)
  also have "power_int (10::rat) (d_exp d - e) = 10 ^ nat (d_exp d - e)"
    using le by (simp add: power_int_def)
  finally show ?thesis by (simp add: dec_value_powi)
qed

lemma dec_add_exact:
  assumes "\<bar>signed_int a * 10 ^ nat (d_exp a - min (d_exp a) (d_exp b)) +
            signed_int b * 10 ^ nat (d_exp b - min (d_exp a) (d_exp b))\<bar> < 10 ^ 28"
  shows "dec_value (dec_add a b) = dec_value a + dec_value b"
proof -
  define e where "e = min (d_exp a) (d_exp b)"
  define s where "s = signed_int a * 10 ^ nat (d_exp a - e) + signed_int b * 10 ^ nat (d_exp b - e)"
  have small: "nat \<bar>s\<bar> < 10 ^ 28" using assms unfolding s_def e_def by (simp add: nat_less_iff)
  have sum: "of_int s * power_int (10::rat) e = dec_value a + dec_value b"
    using aligned_value[of e a] aligned_value[of e b]
    by (simp add: s_def e_def algebra_simps)
  show ?thesis
  proof (cases "d_int a = 0 \<and> d_int b = 0")
    case True
    then have "dec_add a b = \<lparr>d_sign = (d_sign a \<and> d_sign b), d_int = 0, d_exp = e\<rparr>"
      by (simp add: dec_add_def e_def dec_fix_small Let_def)
    with True show ?thesis by (simp add: dec_value_powi signed_int_def)
  next
    case False
    then have "dec_add a b = dec_fix \<lparr>d_sign = (s < 0), d_int = nat \<bar>s\<bar>, d_exp = e\<rparr>"
      unfolding dec_add_def Let_def s_def e_def by (rule if_not_P)
    also have "\<dots> = \<lparr>d_sign = (s < 0), d_int = nat \<bar>s\<bar>, d_exp = e\<rparr>"
      using small by (simp add: dec_fix_small)
    finally show ?thesis using sum by (simp add: dec_value_of_signed)
  qed
qed

lemma dec_value_neg: "dec_value (dec_neg b) = - dec_value b"
  by (simp add: dec_value_powi dec_neg_def signed_int_def)

lemma in_DecimalField_aligned:
  assumes f: "in_DecimalField m p d" and lo: "- int p \<le> e" and le: "e \<le> d_exp d"
  shows "\<bar>signed_int d * 10 ^ nat (d_exp d - e)\<bar> < 10 ^ m"
proof -
  have "nat (d_exp d - e) \<le> nat (d_exp d + int p)" using lo le by simp
  then have "(10::int) ^ nat (d_exp d - e) \<le> 10 ^ nat (d_exp d + int p)"
    by (intro power_increasing) auto
  then have "int (d_int d) * 10 ^ nat (d_exp d - e) \<le> int (d_int d) * 10 ^ nat (d_exp d + int p)"
    by (intro mult_left_mono) auto
  moreover have "\<bar>signed_int d * 10 ^ nat (d_exp d - e)\<bar> = int (d_int d) * 10 ^ nat (d_exp d - e)"
    by (simp add: signed_int_def abs_mult)
  ultimately show ?thesis using f by (simp add: in_DecimalField_def)
qed

lemma dec_sub_exact_in_field:
  assumes a: "in_DecimalField 12 2 a" and b: "in_DecimalField 12 2 b"
  shows "dec_value (dec_sub a b) = dec_value a - dec_value b"
proof -
  define e where "e = min (d_exp a) (d_exp (dec_neg b))"
  have nb: "in_DecimalField 12 2 (dec_neg b)" using b by (simp add: in_DecimalField_def dec_neg_def)
  have lo: "- int 2 \<le> e" using a b by (simp add: e_def in_DecimalField_def dec_neg_def)
  have A: "\<bar>signed_int a * 10 ^ nat (d_exp a - e)\<bar> < 10 ^ 12"
    using in_DecimalField_aligned[OF a lo] by (simp add: e_def)
  have B: "\<bar>signed_int (dec_neg b) * 10 ^ nat (d_exp (dec_neg b) - e)\<bar> < 10 ^ 12"
    using in_DecimalField_aligned[OF nb lo] by (simp add: e_def)
  have "\<bar>signed_int a * 10 ^ nat (d_exp a - e) +
         signed_int (dec_neg b) * 10 ^ nat (d_exp (dec_neg b) - e)\<bar>
        \<le> \<bar>signed_int a * 10 ^ nat (d_exp a - e)\<bar> +
          \<bar>signed_int (dec_neg b) * 10 ^ nat (d_exp (dec_neg b) - e)\<bar>"
    by (rule abs_triangle_ineq)
  also have "\<dots> < 10 ^ 12 + 10 ^ 12" using A B by (rule add_strict_mono)
  also have "\<dots> < (10::int) ^ 28" by simp
  finally have "\<bar>signed_int a * 10 ^ nat (d_exp a - e) +
         signed_int (dec_neg b) * 10 ^ nat (d_exp (dec_neg b) - e)\<bar> < 10 ^ 28" .
  then have "dec_value (dec_add a (dec_neg b)) = dec_value a + dec_value (dec_neg b)"
    unfolding e_def by (rule dec_add_exact)
  then show ?thesis by (simp add: dec_sub_def dec_value_neg)
qed

lemma in_DecimalField_int: "in_DecimalField m p d \<Longrightarrow> d_int d < 10 ^ m"
proof -
  assume f: "in_DecimalField m p d"
  have "int (d_int d) * 1 \<le> int (d_int d) * 10 ^ nat (d_exp d + int p)"
    by (intro mult_left_mono) auto
  moreover have "int (d_int d) * 10 ^ nat (d_exp d + int p) < 10 ^ m"
    using f by (simp add: in_DecimalField_def)
  ultimately have "int (d_int d) < 10 ^ m" by linarith
  then show ?thesis by (metis of_nat_less_iff of_nat_numeral of_nat_power)
qed

lemma dec_mul_exact_in_field:
  assumes a: "in_DecimalField 10 3 a" and b: "in_DecimalField 10 2 b"
  shows "dec_value (dec_mul a b) = dec_value a * dec_value b"
proof -
  have "d_int a * d_int b < 10 ^ 10 * 10 ^ 10"
    using in_DecimalField_int[OF a] in_DecimalField_int[OF b] by (intro mult_strict_mono) auto
  then have "d_int a * d_int b < 10 ^ 28" by simp
  then have "dec_mul a b = \<lparr>d_sign = (d_sign a \<noteq> d_sign b), d_int = d_int a * d_int b,
      d_exp = d_exp a + d_exp b\<rparr>"
    by (simp add: dec_mul_def dec_fix_small)
  then show ?thesis
    by (simp add: dec_value_powi signed_int_def power_int_add)
qed

lemma Model_save_invoice_result:
  assumes "Model_save_invoice now tbl s = Inr (tbl', s')"
  shows "net_amount s' = net_amount s \<and> s' \<in> set tbl' \<and> pk s' \<noteq> None"
  using assms
  by (auto simp: Model_save_invoice_def insert_invoice_def update_invoice_def Let_def
      split: if_splits option.splits)

section \<open>Rounding to the scale of a column\<close>

lemma dec_quantize_exact:
  assumes "fits_scale p d"
  shows "dec_value (dec_quantize p d) = dec_value d"
proof (cases "- int p \<le> d_exp d")
  case True
  have "signed_int (d\<lparr>d_int := d_int d * 10 ^ nat (d_exp d + int p), d_exp := - int p\<rparr>) =
      signed_int d * 10 ^ nat (d_exp d - (- int p))"
    by (simp add: signed_int_def)
  then have "dec_value (dec_quantize p d) =
      of_int (signed_int d * 10 ^ nat (d_exp d - (- int p))) * power_int (10::rat) (- int p)"
    using True by (simp add: dec_quantize_def dec_value_powi)
  also have "\<dots> = dec_value d" using True by (rule aligned_value)
  finally show ?thesis .
next
  case False
  define k where "k = nat (- int p - d_exp d)"
  from False assms have m: "d_int d mod 10 ^ k = 0" by (simp add: fits_scale_def k_def)
  then have r: "round_half_even (d_int d) k = d_int d div 10 ^ k"
    by (simp add: round_half_even_def Let_def)
  from m have "d_int d = d_int d div 10 ^ k * 10 ^ k" by auto
  then have "int (d_int d) = int (d_int d div 10 ^ k * 10 ^ k)" by simp
  then have c: "int (d_int d) = int (d_int d div 10 ^ k) * 10 ^ k" by simp
  have e: "d_exp d = - int p - int k" using False by (simp add: k_def)
  have "power_int (10::rat) (d_exp d) = power_int 10 (- int p) / 10 ^ k"
    unfolding e by (simp add: power_int_diff)
  moreover have "signed_int d =
      signed_int (d\<lparr>d_int := d_int d div 10 ^ k, d_exp := - int p\<rparr>) * 10 ^ k"
    using c by (simp add: signed_int_def)
  then have "(of_int (signed_int d) :: rat) =
      of_int (signed_int (d\<lparr>d_int := d_int d div 10 ^ k, d_exp := - int p\<rparr>) * 10 ^ k)"
    by (simp only:)
  then have "(of_int (signed_int d) :: rat) =
      of_int (signed_int (d\<lparr>d_int := d_int d div 10 ^ k, d_exp := - int p\<rparr>)) * 10 ^ k"
    by simp
  ultimately show ?thesis
    using False r by (simp add: dec_quantize_def dec_value_powi k_def)
qed

lemma round_half_even_error:
  "2 * \<bar>int (round_half_even c k) * 10 ^ k - int c\<bar> \<le> 10 ^ k"
proof -
  define q where "q = c div 10 ^ k"
  define r where "r = c mod 10 ^ k"
  have "c = q * 10 ^ k + r" unfolding q_def r_def by (rule div_mult_mod_eq[symmetric])
  then have "int c = int (q * 10 ^ k + r)" by simp
  then have c: "int c = int q * 10 ^ k + int r" by simp
  have "r < 10 ^ k" unfolding r_def by simp
  then have "int r < int (10 ^ k)" by (simp only: of_nat_less_iff)
  then have r: "int r < 10 ^ k" by simp
  show ?thesis
  proof (cases "10 ^ k < 2 * r \<or> (2 * r = 10 ^ k \<and> odd q)")
    case True
    then have "round_half_even c k = q + 1"
      by (simp add: round_half_even_def Let_def q_def r_def)
    moreover from True have "10 ^ k \<le> 2 * r" by auto
    then have "int (10 ^ k) \<le> int (2 * r)" by (simp only: of_nat_le_iff)
    then have "(10::int) ^ k \<le> 2 * int r" by simp
    ultimately show ?thesis using c r by (simp add: algebra_simps)
  next
    case False
    then have "round_half_even c k = q"
      by (simp add: round_half_even_def Let_def q_def r_def)
    moreover from False have "2 * r \<le> 10 ^ k" by auto
    then have "int (2 * r) \<le> int (10 ^ k)" by (simp only: of_nat_le_iff)
    then have "2 * int r \<le> 10 ^ k" by simp
    ultimately show ?thesis using c by (simp add: algebra_simps)
  qed
qed

lemma dec_quantize_error:
  "\<bar>dec_value (dec_quantize p d) - dec_value d\<bar> \<le> 1 / (2 * 10 ^ p)"
proof (cases "- int p \<le> d_exp d")
  case True
  then have "fits_scale p d" by (simp add: fits_scale_def)
  then show ?thesis by (simp add: dec_quantize_exact)
next
  case False
  define k where "k = nat (- int p - d_exp d)"
  define R where "R = round_half_even (d_int d) k"
  have e: "d_exp d = - int p - int k" using False by (simp add: k_def)
  have pw: "power_int (10::rat) (d_exp d) = power_int 10 (- int p) / 10 ^ k"
    unfolding e by (simp add: power_int_diff)
  have q: "dec_quantize p d = d\<lparr>d_int := R, d_exp := - int p\<rparr>"
    using False by (simp add: dec_quantize_def R_def k_def)
  have "dec_value (dec_quantize p d) - dec_value d =
      (if d_sign d then - 1 else 1) * (of_int (int R * 10 ^ k - int (d_int d)) :: rat) *
        (power_int 10 (- int p) / 10 ^ k)"
    unfolding q by (simp add: dec_value_powi signed_int_def pw field_simps)
  then have "\<bar>dec_value (dec_quantize p d) - dec_value d\<bar> =
      (of_int \<bar>int R * 10 ^ k - int (d_int d)\<bar> :: rat) * (power_int 10 (- int p) / 10 ^ k)"
    by (simp add: abs_mult)
  also have "\<dots> \<le> (10 ^ k / 2) * (power_int 10 (- int p) / 10 ^ k)"
  proof (rule mult_right_mono)
    have "(of_int (2 * \<bar>int R * 10 ^ k - int (d_int d)\<bar>) :: rat) \<le> of_int (10 ^ k)"
      unfolding R_def by (rule iffD2[OF of_int_le_iff round_half_even_error])
    then show "(of_int \<bar>int R * 10 ^ k - int (d_int d)\<bar> :: rat) \<le> 10 ^ k / 2" by simp
    show "(0::rat) \<le> power_int 10 (- int p) / 10 ^ k" by simp
  qed
  also have "\<dots> = 1 / (2 * 10 ^ p)"
    by (simp add: power_int_minus field_simps)
  finally show ?thesis .
qed

section \<open>Evaluating the saves of the test instances\<close>

lemma sub_119_19: "dec_sub Decimal_119_00 Decimal_19_00 = Decimal_100_00"
  by (simp add: Decimal_119_00_def Decimal_19_00_def Decimal_100_00_def dec_sub_def
      dec_add_def dec_neg_def dec_fix_def prec_def signed_int_def Let_def)

lemma bool_Decimal_amounts:
  "bool_Decimal Decimal_119_00" "bool_Decimal Decimal_19_00" "\<not> bool_Decimal Decimal_0"
  by (simp_all add: bool_Decimal_def Decimal_119_00_def Decimal_19_00_def Decimal_0_def)

lemma in_DecimalField_amounts:
  "in_DecimalField 12 2 Decimal_119_00" "in_DecimalField 12 2 Decimal_19_00"
  by (simp_all add: in_DecimalField_def Decimal_119_00_def Decimal_19_00_def)

lemma save_invoice_2024_002:
  "XRechnungInvoice_save 7 [] invoice_2024_002 =
     Inr ([invoice_2024_002_saved], invoice_2024_002_saved)"
  by (simp add: XRechnungInvoice_save_def invoice_2024_002_def invoice_2024_002_saved_def
      XRechnungInvoice_init_def truthy_def bool_Decimal_amounts sub_119_19
      Model_save_invoice_def insert_invoice_def fresh_pk_def)
    (simp add: Let_def)


lemma mul_3_25:
  "dec_mul \<lparr>d_sign = False, d_int = 30, d_exp = - 1\<rparr> \<lparr>d_sign = False, d_int = 2500, d_exp = - 2\<rparr> =
   \<lparr>d_sign = False, d_int = 75000, d_exp = - 3\<rparr>"
  by (simp add: dec_mul_def dec_fix_def prec_def)

lemma quantize_75: 
  "dec_quantize 2 \<lparr>d_sign = False, d_int = 75000, d_exp = - 3\<rparr> =
   \<lparr>d_sign = False, d_int = 7500, d_exp = - 2\<rparr>"
  by (simp add: dec_quantize_def round_half_even_def)

lemma save_line_item_3_x_25:
  "XRechnungLineItem_save [] line_item_3_x_25 =
     Inr ([line_item_3_x_25\<lparr>item_pk := Some 1,
              line_total := Some \<lparr>d_sign = False, d_int = 7500, d_exp = - 2\<rparr>\<rparr>],
          line_item_3_x_25\<lparr>item_pk := Some 1,
              line_total := Some \<lparr>d_sign = False, d_int = 75000, d_exp = - 3\<rparr>\<rparr>)"
  by (simp add: XRechnungLineItem_save_def line_item_3_x_25_def XRechnungLineItem_init_def
      truthy_def bool_Decimal_def mul_3_25 Model_save_line_item_def insert_line_item_def
      fresh_pk_def)
    (simp add: Let_def line_item_row_def quantize_75)

lemma mul_1_005_9_99:
  "dec_mul \<lparr>d_sign = False, d_int = 1005, d_exp = - 3\<rparr> \<lparr>d_sign = False, d_int = 999, d_exp = - 2\<rparr> =
   \<lparr>d_sign = False, d_int = 1003995, d_exp = - 5\<rparr>"
  by (simp add: dec_mul_def dec_fix_def prec_def)

lemma quantize_10_03995:
  "dec_quantize 2 \<lparr>d_sign = False, d_int = 1003995, d_exp = - 5\<rparr> =
   \<lparr>d_sign = False, d_int = 1004, d_exp = - 2\<rparr>"
  by (simp add: dec_quantize_def round_half_even_def)

lemma save_line_item_1_005_x_9_99:
  "XRechnungLineItem_save [] line_item_1_005_x_9_99 =
     Inr ([line_item_1_005_x_9_99\<lparr>item_pk := Some 1,
              line_total := Some \<lparr>d_sign = False, d_int = 1004, d_exp = - 2\<rparr>\<rparr>],
          line_item_1_005_x_9_99\<lparr>item_pk := Some 1,
              line_total := Some \<lparr>d_sign = False, d_int = 1003995, d_exp = - 5\<rparr>\<rparr>)"
  by (simp add: XRechnungLineItem_save_def line_item_1_005_x_9_99_def XRechnungLineItem_init_def
      truthy_def bool_Decimal_def mul_1_005_9_99 Model_save_line_item_def insert_line_item_def
      fresh_pk_def)
    (simp add: Let_def line_item_row_def quantize_10_03995)

section \<open>What a successful write stores\<close>

lemma Model_save_invoice_row:
  assumes "Model_save_invoice now tbl s = Inr (tbl', s')"
  shows "invoice_number s' = invoice_number s \<and> s' \<in> set tbl'"
  using assms
  by (auto simp: Model_save_invoice_def insert_invoice_def update_invoice_def Let_def
      split: if_splits option.splits)

lemma Model_save_invoice_stores:
  assumes "Model_save_invoice now tbl s = Inr (tbl', s')"
  shows "\<exists>r \<in> set tbl'. invoice_number r = invoice_number s"
  using Model_save_invoice_row[OF assms] by blast

lemma Model_save_invoice_duplicate:
  assumes "\<exists>r \<in> set tbl. invoice_number r = invoice_number s" and "pk s = None"
  shows "Model_save_invoice now tbl s = Inl IntegrityError"
  using assms by (auto simp: Model_save_invoice_def insert_invoice_def)

lemma Model_save_line_item_row:
  assumes "Model_save_line_item tbl s = Inr (tbl', s')"
  shows "line_total s' = line_total s \<and> item_pk s' \<noteq> None \<and> line_item_row s' \<in> set tbl'"
  using assms
  by (auto simp: Model_save_line_item_def insert_line_item_def update_line_item_def Let_def
      split: if_splits option.splits)

lemma line_item_row_keys:
  "invoice_id (line_item_row s) = invoice_id s" "position (line_item_row s) = position s"
  "item_pk (line_item_row s) = item_pk s"
  "line_total (line_item_row s) = map_option (dec_quantize 2) (line_total s)"
  by (simp_all add: line_item_row_def)

lemma Model_save_line_item_keeps_keys:
  assumes "Model_save_line_item tbl s = Inr (tbl', s')"
  shows "invoice_id s' = invoice_id s \<and> position s' = position s"
  using assms
  by (auto simp: Model_save_line_item_def insert_line_item_def update_line_item_def Let_def
      split: if_splits option.splits)

lemma Model_save_line_item_stores:
  assumes "Model_save_line_item tbl s = Inr (tbl', s')"
  shows "\<exists>r \<in> set tbl'. invoice_id r = invoice_id s \<and> position r = position s"
  using Model_save_line_item_row[OF assms] Model_save_line_item_keeps_keys[OF assms]
    line_item_row_keys(1,2)[of s'] by metis

lemma Model_save_line_item_duplicate:
  assumes "\<exists>r \<in> set tbl. invoice_id r = invoice_id s \<and> position r = position s"
    and "item_pk s = None"
  shows "Model_save_line_item tbl s = Inl IntegrityError"
  using assms by (auto simp: Model_save_line_item_def insert_line_item_def)

section \<open>The listing is the ordered table, filtered\<close>

lemma mset_insert_ordered: "mset (insert_ordered x ys) = add_mset x (mset ys)"
  by (induction ys) auto

lemma mset_Meta_ordering: "mset (Meta_ordering rows) = mset rows"
  unfolding Meta_ordering_def by (induction rows) (auto simp: mset_insert_ordered)

lemma set_insert_ordered: "set (insert_ordered x ys) = insert x (set ys)"
  by (induction ys) auto

lemma sorted_insert_ordered:
  "sorted_wrt comes_before ys \<Longrightarrow> sorted_wrt comes_before (insert_ordered x ys)"
  by (induction ys) (auto simp: set_insert_ordered comes_before_def)

lemma sorted_Meta_ordering: "sorted_wrt comes_before (Meta_ordering rows)"
  unfolding Meta_ordering_def by (induction rows) (auto simp: sorted_insert_ordered)

lemma icontains_empty: "icontains column []"
  by (simp add: icontains_def)

section \<open>The generated document\<close>

lemma basic_xml_contains:
  "sublist (''<InvoiceNumber>'' @ invoice_number invoice @ ''</InvoiceNumber>'')
     (basic_xml invoice)"
  "sublist (''<InvoiceDate>'' @ isoformat (invoice_date invoice) @ ''</InvoiceDate>'')
     (basic_xml invoice)"
  \<open>sublist (''<TotalAmount currency="'' @ currency invoice @ ''">'' @
       py_str (total_amount invoice) @ ''</TotalAmount>'') (basic_xml invoice)\<close>
proof -
  show "sublist (''<InvoiceNumber>'' @ invoice_number invoice @ ''</InvoiceNumber>'')
     (basic_xml invoice)"
    unfolding sublist_def basic_xml_def
    apply (rule exI[of _ \<open>''<?xml version="1.0" encoding="UTF-8"?>\<newline><Invoice>\<newline>    ''\<close>])
    apply (simp)
    done
  show "sublist (''<InvoiceDate>'' @ isoformat (invoice_date invoice) @ ''</InvoiceDate>'')
     (basic_xml invoice)"
    unfolding sublist_def basic_xml_def
    apply (rule exI[of _ \<open>''<?xml version="1.0" encoding="UTF-8"?>\<newline><Invoice>\<newline>    <InvoiceNumber>'' @ invoice_number invoice @ ''</InvoiceNumber>\<newline>    ''\<close>])
    apply (simp)
    done
  show \<open>sublist (''<TotalAmount currency="'' @ currency invoice @ ''">'' @
       py_str (total_amount invoice) @ ''</TotalAmount>'') (basic_xml invoice)\<close>
    unfolding sublist_def basic_xml_def
    apply (rule exI[of _ \<open>''<?xml version="1.0" encoding="UTF-8"?>\<newline><Invoice>\<newline>    <InvoiceNumber>'' @ invoice_number invoice @ ''</InvoiceNumber>\<newline>    <InvoiceDate>'' @ isoformat (invoice_date invoice) @ ''</InvoiceDate>\<newline>    <Supplier>\<newline>        <Name>'' @ supplier_name invoice @ ''</Name>\<newline>        <TaxID>'' @ supplier_tax_id invoice @ ''</TaxID>\<newline>    </Supplier>\<newline>    <Buyer>\<newline>        <Name>'' @ buyer_name invoice @ ''</Name>\<newline>        <TaxID>'' @ buyer_tax_id invoice @ ''</TaxID>\<newline>    </Buyer>\<newline>    ''\<close>])
    apply (rule exI[of _ \<open>''\<newline></Invoice>''\<close>])
    apply (simp)
    done
qed

lemma basic_xml_contains_parties:
  "sublist (''<Supplier>\<newline>        <Name>'' @ supplier_name invoice @
      ''</Name>\<newline>        <TaxID>'' @ supplier_tax_id invoice @
      ''</TaxID>\<newline>    </Supplier>'') (basic_xml invoice)"
  "sublist (''<Buyer>\<newline>        <Name>'' @ buyer_name invoice @
      ''</Name>\<newline>        <TaxID>'' @ buyer_tax_id invoice @
      ''</TaxID>\<newline>    </Buyer>'') (basic_xml invoice)"
proof -
  show "sublist (''<Supplier>\<newline>        <Name>'' @ supplier_name invoice @
      ''</Name>\<newline>        <TaxID>'' @ supplier_tax_id invoice @
      ''</TaxID>\<newline>    </Supplier>'') (basic_xml invoice)"
    unfolding sublist_def basic_xml_def
    apply (rule exI[of _ \<open>''<?xml version="1.0" encoding="UTF-8"?>\<newline><Invoice>\<newline>    <InvoiceNumber>'' @ invoice_number invoice @ ''</InvoiceNumber>\<newline>    <InvoiceDate>'' @ isoformat (invoice_date invoice) @ ''</InvoiceDate>\<newline>    ''\<close>])
    apply simp
    done
  show "sublist (''<Buyer>\<newline>        <Name>'' @ buyer_name invoice @
      ''</Name>\<newline>        <TaxID>'' @ buyer_tax_id invoice @
      ''</TaxID>\<newline>    </Buyer>'') (basic_xml invoice)"
    unfolding sublist_def basic_xml_def
    apply (rule exI[of _ \<open>''<?xml version="1.0" encoding="UTF-8"?>\<newline><Invoice>\<newline>    <InvoiceNumber>'' @ invoice_number invoice @ ''</InvoiceNumber>\<newline>    <InvoiceDate>'' @ isoformat (invoice_date invoice) @ ''</InvoiceDate>\<newline>    <Supplier>\<newline>        <Name>'' @ supplier_name invoice @ ''</Name>\<newline>        <TaxID>'' @ supplier_tax_id invoice @ ''</TaxID>\<newline>    </Supplier>\<newline>    ''\<close>])
    apply simp
    done
qed

lemma document_of_basic_xml: "document_of invoice (basic_xml invoice)"
  unfolding document_of_def
  by (intro conjI basic_xml_contains basic_xml_contains_parties)

section \<open>Evaluating the views on the test instances\<close>

lemma save_invoice_test_001:
  "XRechnungInvoice_save 5 [] invoice_test_001 = Inr ([invoice_test_001_saved], invoice_test_001_saved)"
  by (simp add: XRechnungInvoice_save_def invoice_test_001_def invoice_test_001_saved_def
      XRechnungInvoice_init_def Model_save_invoice_def insert_invoice_def fresh_pk_def)
    (simp add: Let_def)

lemma save_invoice_test_002:
  "XRechnungInvoice_save 6 [invoice_test_001_saved] invoice_test_002 =
     Inr (test_invoices, invoice_test_002_saved)"
  by (simp add: XRechnungInvoice_save_def invoice_test_002_def invoice_test_002_saved_def
      invoice_test_001_def invoice_test_001_saved_def test_invoices_def
      XRechnungInvoice_init_def truthy_def bool_Decimal_def Decimal_0_def
      Model_save_invoice_def insert_invoice_def fresh_pk_def)
    (simp add: Let_def)

lemma save_free_line_item:
  "XRechnungLineItem_save [] free_line_item =
     Inr ([free_line_item_saved], free_line_item_saved)"
  by (simp add: XRechnungLineItem_save_def free_line_item_def free_line_item_saved_def
      XRechnungLineItem_init_def
      truthy_def bool_Decimal_def Model_save_line_item_def insert_line_item_def fresh_pk_def)
    (simp add: Let_def line_item_row_def)

lemma py_str_119_00: "py_str (Some Decimal_119_00) = ''119.00''"
  by (simp add: py_str_def str_Decimal_def Decimal_119_00_def digit_char_def Let_def)

lemma isoformat_today: "isoformat today = ''2024-03-15''"
  by (simp add: isoformat_def today_def zfill_def digit_char_def)

lemma icontains_test_supplier: "icontains ''Test Supplier Ltd.'' ''Test Supplier''"
  by (simp add: icontains_def ascii_lower_def sublist_Cons_right)

lemma not_icontains_another_supplier: "\<not> icontains ''Another Supplier'' ''Test Supplier''"
  by (simp add: icontains_def ascii_lower_def sublist_Cons_right)

lemma get_test_invoices:
  "get_object_or_404 test_invoices 1 = Inr invoice_test_001_saved"
  "get_object_or_404 test_invoices 2 = Inr invoice_test_002_saved"
  "get_object_or_404 (test_invoices @ [invoice_test_003_saved]) 3 = Inr invoice_test_003_saved"
  by (simp_all add: get_object_or_404_def test_invoices_def invoice_test_001_saved_def
      invoice_test_002_saved_def invoice_test_003_saved_def)

lemma test_invoices_fields:
  "supplier_name invoice_test_001_saved = ''Test Supplier Ltd.''"
  "supplier_name invoice_test_002_saved = ''Another Supplier''"
  "invoice_date invoice_test_001_saved = today"
  "invoice_date invoice_test_002_saved = today"
  "created_at invoice_test_001_saved = 5"
  "created_at invoice_test_002_saved = 6"
  by (simp_all add: invoice_test_001_saved_def invoice_test_001_def invoice_test_002_saved_def
      invoice_test_002_def XRechnungInvoice_init_def)

lemma save_invoice_2024_004:
  "XRechnungInvoice_save 7 [] invoice_2024_004 =
     Inr ([invoice_2024_004\<lparr>pk := Some 1, created_at := 7, updated_at := 7\<rparr>],
          invoice_2024_004\<lparr>pk := Some 1, created_at := 7, updated_at := 7\<rparr>)"
  by (simp add: XRechnungInvoice_save_def invoice_2024_004_def XRechnungInvoice_init_def
      truthy_def bool_Decimal_amounts Model_save_invoice_def insert_invoice_def fresh_pk_def)
    (simp add: Let_def)

lemma save_product_1:
  "XRechnungLineItem_save [] product_1 =
     Inr ([product_1\<lparr>item_pk := Some 1\<rparr>], product_1\<lparr>item_pk := Some 1\<rparr>)"
  by (simp add: XRechnungLineItem_save_def product_1_def XRechnungLineItem_init_def
      Model_save_line_item_def insert_line_item_def fresh_pk_def)
    (simp add: Let_def line_item_row_def dec_quantize_def)

section \<open>The derived amounts\<close>

text \<open>
  C1. An invoice saved with no net amount and with a total and a tax amount that are
  both present and nonzero comes out of the save, and is stored, with the net amount
  \<open>total_amount - tax_amount\<close>; on values of the declared columns (12 digits, 2 of them
  after the point) Decimal subtraction loses nothing, so the net amount is the exact
  difference. The invoice INV-2024-002 with total 119.00 and tax 19.00 gets 100.00.
\<close>

theorem invoice_save_derives_net_amount:
  assumes "net_amount self = None"
    and "total_amount self = Some t" and "tax_amount self = Some x"
    and "bool_Decimal t" and "bool_Decimal x"
    and "XRechnungInvoice_save now tbl self = Inr (tbl', self')"
  shows "net_amount self' = Some (dec_sub t x) \<and> self' \<in> set tbl' \<and>
    (in_DecimalField 12 2 t \<and> in_DecimalField 12 2 x \<longrightarrow>
       dec_value (dec_sub t x) = dec_value t - dec_value x)"
proof -
  have "Model_save_invoice now tbl (self\<lparr>net_amount := Some (dec_sub t x)\<rparr>) = Inr (tbl', self')"
    using assms by (simp add: XRechnungInvoice_save_def truthy_def)
  from Model_save_invoice_result[OF this] show ?thesis
    by (simp add: dec_sub_exact_in_field)
qed

theorem invoice_save_derives_net_amount_witness:
  "XRechnungInvoice_save 7 [] invoice_2024_002 =
     Inr ([invoice_2024_002_saved], invoice_2024_002_saved) \<and>
   net_amount invoice_2024_002 = None \<and>
   total_amount invoice_2024_002 = Some Decimal_119_00 \<and> bool_Decimal Decimal_119_00 \<and>
   tax_amount invoice_2024_002 = Some Decimal_19_00 \<and> bool_Decimal Decimal_19_00 \<and>
   in_DecimalField 12 2 Decimal_119_00 \<and> in_DecimalField 12 2 Decimal_19_00 \<and>
   net_amount invoice_2024_002_saved = Some Decimal_100_00 \<and>
   invoice_2024_002_saved \<in> set [invoice_2024_002_saved] \<and>
   dec_value Decimal_100_00 = dec_value Decimal_119_00 - dec_value Decimal_19_00 \<and>
   dec_value Decimal_100_00 = 100"
proof -
  have a: "net_amount invoice_2024_002 = None"
    "total_amount invoice_2024_002 = Some Decimal_119_00"
    "tax_amount invoice_2024_002 = Some Decimal_19_00"
    by (simp_all add: invoice_2024_002_def XRechnungInvoice_init_def)
  have r: "net_amount invoice_2024_002_saved = Some (dec_sub Decimal_119_00 Decimal_19_00) \<and>
      invoice_2024_002_saved \<in> set [invoice_2024_002_saved] \<and>
      (in_DecimalField 12 2 Decimal_119_00 \<and> in_DecimalField 12 2 Decimal_19_00 \<longrightarrow>
       dec_value (dec_sub Decimal_119_00 Decimal_19_00) =
       dec_value Decimal_119_00 - dec_value Decimal_19_00)"
    by (rule invoice_save_derives_net_amount
        [OF a bool_Decimal_amounts(1) bool_Decimal_amounts(2) save_invoice_2024_002])
  have v: "dec_value Decimal_100_00 = 100"
    by (simp add: dec_value_def signed_int_def Decimal_100_00_def)
  from a r v show ?thesis
    by (simp add: save_invoice_2024_002 sub_119_19 bool_Decimal_amounts
        in_DecimalField_amounts)
qed

text \<open>
  C2. The claim: an invoice created without a net amount, with a total and with the
  default tax amount of zero, is stored with the net amount \<open>total_amount - tax_amount\<close>.
  The code at that input: the invoice INV-2024-005 (total 119.00, tax amount left at
  its default 0) is stored with no net amount at all, because the guard of
  \<^verbatim>\<open>save\<close> tests the truthiness of the tax amount and zero is falsy.
\<close>

theorem invoice_save_zero_tax_leaves_net_amount_null:
  "XRechnungInvoice_save 7 [] invoice_2024_005 =
     Inr ([invoice_2024_005\<lparr>pk := Some 1, created_at := 7, updated_at := 7\<rparr>],
          invoice_2024_005\<lparr>pk := Some 1, created_at := 7, updated_at := 7\<rparr>) \<and>
   total_amount invoice_2024_005 = Some Decimal_119_00 \<and>
   tax_amount invoice_2024_005 = Some Decimal_0 \<and>
   net_amount (invoice_2024_005\<lparr>pk := Some 1, created_at := 7, updated_at := 7\<rparr>) = None \<and>
   dec_sub Decimal_119_00 Decimal_0 = Decimal_119_00"
  by (simp add: XRechnungInvoice_save_def invoice_2024_005_def XRechnungInvoice_init_def
      truthy_def bool_Decimal_def Decimal_0_def Decimal_119_00_def Model_save_invoice_def
      insert_invoice_def fresh_pk_def dec_sub_def dec_add_def dec_neg_def dec_fix_def
      prec_def signed_int_def Let_def)

text \<open>
  C3, as amended. A line item saved with no line total and with a quantity and a
  unit price that are both present and nonzero comes out of the save with the line
  total \<open>quantity * unit_price\<close>, which on values of the declared columns (quantity:
  10 digits, 3 after the point; unit price: 10 digits, 2 after the point) is the exact
  product. The row that is stored holds that product rounded to the 2 decimal places
  of the \<open>line_total\<close> column: it is within half a hundredth of the product, and equal
  to it when the product has no nonzero digit beyond the second decimal place.
  Quantity 3.0 at unit price 25.00 gives 75.000 and is stored as 75.00.
\<close>

theorem line_item_save_rounds_stored_line_total:
  assumes "line_total self = None"
    and "quantity self = Some q" and "unit_price self = Some u"
    and "bool_Decimal q" and "bool_Decimal u"
    and "XRechnungLineItem_save tbl self = Inr (tbl', self')"
  shows "line_total self' = Some (dec_mul q u) \<and>
    (in_DecimalField 10 3 q \<and> in_DecimalField 10 2 u \<longrightarrow>
       dec_value (dec_mul q u) = dec_value q * dec_value u) \<and>
    (\<exists>row \<in> set tbl'. item_pk row = item_pk self' \<and> item_pk row \<noteq> None \<and>
       line_total row = Some (dec_quantize 2 (dec_mul q u))) \<and>
    \<bar>dec_value (dec_quantize 2 (dec_mul q u)) - dec_value (dec_mul q u)\<bar> \<le> 1 / 200 \<and>
    (fits_scale 2 (dec_mul q u) \<longrightarrow>
       dec_value (dec_quantize 2 (dec_mul q u)) = dec_value (dec_mul q u))"
proof -
  have "Model_save_line_item tbl (self\<lparr>line_total := Some (dec_mul q u)\<rparr>) = Inr (tbl', self')"
    using assms by (simp add: XRechnungLineItem_save_def truthy_def)
  from Model_save_line_item_row[OF this]
  have t: "line_total self' = Some (dec_mul q u)" and p: "item_pk self' \<noteq> None"
    and r: "line_item_row self' \<in> set tbl'"
    by simp_all
  have row: "\<exists>row \<in> set tbl'. item_pk row = item_pk self' \<and> item_pk row \<noteq> None \<and>
       line_total row = Some (dec_quantize 2 (dec_mul q u))"
    using r p t by (intro bexI[of _ "line_item_row self'"]) (simp_all add: line_item_row_keys)
  have err: "\<bar>dec_value (dec_quantize 2 (dec_mul q u)) - dec_value (dec_mul q u)\<bar> \<le> 1 / 200"
    using dec_quantize_error[of 2 "dec_mul q u"] by simp
  from t row err show ?thesis
    by (simp add: dec_mul_exact_in_field dec_quantize_exact)
qed

theorem line_item_save_rounds_stored_line_total_witness:
  "XRechnungLineItem_save [] line_item_3_x_25 =
     Inr ([line_item_3_x_25\<lparr>item_pk := Some 1,
              line_total := Some \<lparr>d_sign = False, d_int = 7500, d_exp = - 2\<rparr>\<rparr>],
          line_item_3_x_25\<lparr>item_pk := Some 1,
              line_total := Some \<lparr>d_sign = False, d_int = 75000, d_exp = - 3\<rparr>\<rparr>) \<and>
   line_total line_item_3_x_25 = None \<and>
   quantity line_item_3_x_25 = Some \<lparr>d_sign = False, d_int = 30, d_exp = - 1\<rparr> \<and>
   unit_price line_item_3_x_25 = Some \<lparr>d_sign = False, d_int = 2500, d_exp = - 2\<rparr> \<and>
   bool_Decimal \<lparr>d_sign = False, d_int = 30, d_exp = - 1\<rparr> \<and>
   bool_Decimal \<lparr>d_sign = False, d_int = 2500, d_exp = - 2\<rparr> \<and>
   in_DecimalField 10 3 \<lparr>d_sign = False, d_int = 30, d_exp = - 1\<rparr> \<and>
   in_DecimalField 10 2 \<lparr>d_sign = False, d_int = 2500, d_exp = - 2\<rparr> \<and>
   fits_scale 2 \<lparr>d_sign = False, d_int = 75000, d_exp = - 3\<rparr> \<and>
   dec_value \<lparr>d_sign = False, d_int = 75000, d_exp = - 3\<rparr> =
     dec_value \<lparr>d_sign = False, d_int = 30, d_exp = - 1\<rparr> *
     dec_value \<lparr>d_sign = False, d_int = 2500, d_exp = - 2\<rparr> \<and>
   dec_value \<lparr>d_sign = False, d_int = 7500, d_exp = - 2\<rparr> =
     dec_value \<lparr>d_sign = False, d_int = 75000, d_exp = - 3\<rparr> \<and>
   dec_value \<lparr>d_sign = False, d_int = 7500, d_exp = - 2\<rparr> = 75"
proof -
  let ?q = "\<lparr>d_sign = False, d_int = 30, d_exp = - 1\<rparr>"
  let ?u = "\<lparr>d_sign = False, d_int = 2500, d_exp = - 2\<rparr>"
  have a: "line_total line_item_3_x_25 = None" "quantity line_item_3_x_25 = Some ?q"
    "unit_price line_item_3_x_25 = Some ?u"
    by (simp_all add: line_item_3_x_25_def XRechnungLineItem_init_def)
  have b: "bool_Decimal ?q" "bool_Decimal ?u"
    by (simp_all add: bool_Decimal_def)
  have f: "in_DecimalField 10 3 ?q" "in_DecimalField 10 2 ?u"
    by (simp_all add: in_DecimalField_def)
  have s: "fits_scale 2 \<lparr>d_sign = False, d_int = 75000, d_exp = - 3\<rparr>"
    by (simp add: fits_scale_def)
  note r = line_item_save_rounds_stored_line_total [OF a b save_line_item_3_x_25]
  have v: "dec_value \<lparr>d_sign = False, d_int = 7500, d_exp = - 2\<rparr> = 75"
    by (simp add: dec_value_def signed_int_def)
  from a b f s r v save_line_item_3_x_25 show ?thesis
    by (simp add: mul_3_25 quantize_75)
qed

text \<open>
  C3 as stated fails: the stored line total is not always the product. Quantity
  1.005 at unit price 9.99, both values of their columns, gives the line total
  10.03995 in memory and 10.04 in the stored row.
\<close>

theorem stored_line_total_differs_from_product:
  "XRechnungLineItem_save [] line_item_1_005_x_9_99 =
     Inr ([line_item_1_005_x_9_99\<lparr>item_pk := Some 1,
              line_total := Some \<lparr>d_sign = False, d_int = 1004, d_exp = - 2\<rparr>\<rparr>],
          line_item_1_005_x_9_99\<lparr>item_pk := Some 1,
              line_total := Some \<lparr>d_sign = False, d_int = 1003995, d_exp = - 5\<rparr>\<rparr>) \<and>
   line_total line_item_1_005_x_9_99 = None \<and>
   quantity line_item_1_005_x_9_99 = Some \<lparr>d_sign = False, d_int = 1005, d_exp = - 3\<rparr> \<and>
   unit_price line_item_1_005_x_9_99 = Some \<lparr>d_sign = False, d_int = 999, d_exp = - 2\<rparr> \<and>
   in_DecimalField 10 3 \<lparr>d_sign = False, d_int = 1005, d_exp = - 3\<rparr> \<and>
   in_DecimalField 10 2 \<lparr>d_sign = False, d_int = 999, d_exp = - 2\<rparr> \<and>
   dec_value \<lparr>d_sign = False, d_int = 1004, d_exp = - 2\<rparr> \<noteq>
     dec_value \<lparr>d_sign = False, d_int = 1005, d_exp = - 3\<rparr> *
     dec_value \<lparr>d_sign = False, d_int = 999, d_exp = - 2\<rparr>"
proof -
  have a: "line_total line_item_1_005_x_9_99 = None"
    "quantity line_item_1_005_x_9_99 = Some \<lparr>d_sign = False, d_int = 1005, d_exp = - 3\<rparr>"
    "unit_price line_item_1_005_x_9_99 = Some \<lparr>d_sign = False, d_int = 999, d_exp = - 2\<rparr>"
    by (simp_all add: line_item_1_005_x_9_99_def XRechnungLineItem_init_def)
  have f: "in_DecimalField 10 3 \<lparr>d_sign = False, d_int = 1005, d_exp = - 3\<rparr>"
    "in_DecimalField 10 2 \<lparr>d_sign = False, d_int = 999, d_exp = - 2\<rparr>"
    by (simp_all add: in_DecimalField_def)
  have v: "dec_value \<lparr>d_sign = False, d_int = 1004, d_exp = - 2\<rparr> \<noteq>
     dec_value \<lparr>d_sign = False, d_int = 1005, d_exp = - 3\<rparr> *
     dec_value \<lparr>d_sign = False, d_int = 999, d_exp = - 2\<rparr>"
    by (simp add: dec_value_def signed_int_def)
  from a f v save_line_item_1_005_x_9_99 show ?thesis by simp
qed



section \<open>The export, the constraints, the listing and the projection\<close>

text \<open>
  C5. A GET of the XML export for the identifier of a stored invoice answers with
  content type application/xml and the attachment file name
  \<open>invoice_{invoice_number}.xml\<close>. The body is the stored \<open>xml_content\<close>,
  unchanged, when that is not empty; otherwise it is the generated document, which
  contains the invoice number, the invoice date, the supplier's and the buyer's name
  and tax id, and the total amount under a currency attribute, each value inserted as
  it is stored, without escaping.
\<close>

theorem invoice_xml_export_response:
  assumes "http_method req = ''GET''" and "get_object_or_404 tbl k = Inr invoice"
  shows \<open>\<exists>body.
    invoice_xml_export req tbl k =
      Inr (HttpResponse body ''application/xml''
        [(''Content-Disposition'',
          ''attachment; filename="invoice_'' @ invoice_number invoice @ ''.xml"'')]) \<and>
    (xml_content invoice \<noteq> [] \<longrightarrow> body = xml_content invoice) \<and>
    (xml_content invoice = [] \<longrightarrow> body = basic_xml invoice \<and> document_of invoice body)\<close>
proof (cases "xml_content invoice = []")
  case True
  with assms have "invoice_xml_export req tbl k =
      Inr (HttpResponse (basic_xml invoice) ''application/xml'' (content_disposition invoice))"
    by (simp add: invoice_xml_export_def)
  with True show ?thesis
    by (simp add: content_disposition_def document_of_basic_xml)
next
  case False
  with assms have "invoice_xml_export req tbl k =
      Inr (HttpResponse (xml_content invoice) ''application/xml'' (content_disposition invoice))"
    by (simp add: invoice_xml_export_def)
  with False show ?thesis by (simp add: content_disposition_def)
qed

theorem invoice_xml_export_response_witness:
  \<open>(\<exists>body.
     invoice_xml_export (GET_request False []) test_invoices 1 =
       Inr (HttpResponse body ''application/xml''
         [(''Content-Disposition'', ''attachment; filename="invoice_INV-TEST-001.xml"'')]) \<and>
     sublist ''<InvoiceNumber>INV-TEST-001</InvoiceNumber>'' body \<and>
     sublist ''<InvoiceDate>2024-03-15</InvoiceDate>'' body \<and>
     sublist ''<TotalAmount currency="EUR">119.00</TotalAmount>'' body) \<and>
   invoice_xml_export (GET_request False []) (test_invoices @ [invoice_test_003_saved]) 3 =
     Inr (HttpResponse ''<Invoice><ID>INV-TEST-003</ID></Invoice>'' ''application/xml''
       [(''Content-Disposition'', ''attachment; filename="invoice_INV-TEST-003.xml"'')])\<close>
proof -
  have g: "http_method (GET_request False []) = ''GET''"
    by (simp add: GET_request_def)
  have f1: "xml_content invoice_test_001_saved = []"
    "invoice_number invoice_test_001_saved = ''INV-TEST-001''"
    "invoice_date invoice_test_001_saved = today"
    "currency invoice_test_001_saved = ''EUR''"
    "total_amount invoice_test_001_saved = Some Decimal_119_00"
    by (simp_all add: invoice_test_001_saved_def invoice_test_001_def XRechnungInvoice_init_def)
  have f3: "xml_content invoice_test_003_saved = ''<Invoice><ID>INV-TEST-003</ID></Invoice>''"
    "invoice_number invoice_test_003_saved = ''INV-TEST-003''"
    by (simp_all add: invoice_test_003_saved_def)
  from invoice_xml_export_response [OF g get_test_invoices(1)]
  obtain body where b: \<open>invoice_xml_export (GET_request False []) test_invoices 1 =
       Inr (HttpResponse body ''application/xml''
         [(''Content-Disposition'', ''attachment; filename="invoice_INV-TEST-001.xml"'')])\<close>
    and d: "document_of invoice_test_001_saved body"
    by (auto simp: f1)
  from d have \<open>sublist ''<InvoiceNumber>INV-TEST-001</InvoiceNumber>'' body \<and>
     sublist ''<InvoiceDate>2024-03-15</InvoiceDate>'' body \<and>
     sublist ''<TotalAmount currency="EUR">119.00</TotalAmount>'' body\<close>
    by (simp add: document_of_def f1 py_str_119_00 isoformat_today)
  with b have one: \<open>\<exists>body.
     invoice_xml_export (GET_request False []) test_invoices 1 =
       Inr (HttpResponse body ''application/xml''
         [(''Content-Disposition'', ''attachment; filename="invoice_INV-TEST-001.xml"'')]) \<and>
     sublist ''<InvoiceNumber>INV-TEST-001</InvoiceNumber>'' body \<and>
     sublist ''<InvoiceDate>2024-03-15</InvoiceDate>'' body \<and>
     sublist ''<TotalAmount currency="EUR">119.00</TotalAmount>'' body\<close>
    by blast
  from invoice_xml_export_response [OF g get_test_invoices(3)]
  have three: \<open>invoice_xml_export (GET_request False []) (test_invoices @ [invoice_test_003_saved]) 3 =
     Inr (HttpResponse ''<Invoice><ID>INV-TEST-003</ID></Invoice>'' ''application/xml''
       [(''Content-Disposition'', ''attachment; filename="invoice_INV-TEST-003.xml"'')])\<close>
    by (simp add: f3)
  from one three show ?thesis by (rule conjI)
qed

text \<open>
  C6. After an invoice has been created, creating another one with the same invoice
  number raises IntegrityError; after a line item has been created, creating another
  one under the same invoice with the same position raises IntegrityError. The error
  comes from the write of the base class and not from a check made before it: what
  \<^verbatim>\<open>save\<close> does to an instance before it hands it to that write is the same
  whatever rows the table holds.
\<close>

theorem duplicate_create_raises_IntegrityError:
  "(pk a = None \<and> pk b = None \<and> invoice_number b = invoice_number a \<and>
      XRechnungInvoice_save t1 tbl a = Inr (tbl', a')
    \<longrightarrow> XRechnungInvoice_save t2 tbl' b = Inl IntegrityError) \<and>
   (item_pk c = None \<and> item_pk d = None \<and> invoice_id d = invoice_id c \<and>
      position d = position c \<and> XRechnungLineItem_save items c = Inr (items', c')
    \<longrightarrow> XRechnungLineItem_save items' d = Inl IntegrityError) \<and>
   (\<exists>b0. \<forall>now rows. XRechnungInvoice_save now rows b = Model_save_invoice now rows b0) \<and>
   (\<exists>d0. \<forall>rows. XRechnungLineItem_save rows d = Model_save_line_item rows d0)"
proof (intro conjI impI)
  show "\<exists>b0. \<forall>now rows. XRechnungInvoice_save now rows b = Model_save_invoice now rows b0"
    unfolding XRechnungInvoice_save_def Let_def by blast
  show "\<exists>d0. \<forall>rows. XRechnungLineItem_save rows d = Model_save_line_item rows d0"
    unfolding XRechnungLineItem_save_def Let_def by blast
next
  assume h: "pk a = None \<and> pk b = None \<and> invoice_number b = invoice_number a \<and>
      XRechnungInvoice_save t1 tbl a = Inr (tbl', a')"
  then obtain a0 where "Model_save_invoice t1 tbl a0 = Inr (tbl', a')"
    and "invoice_number a0 = invoice_number a"
    by (auto simp: XRechnungInvoice_save_def Let_def split: if_splits)
  from Model_save_invoice_stores[OF this(1)] this(2) h
  have ex: "\<exists>r \<in> set tbl'. invoice_number r = invoice_number b" by simp
  show "XRechnungInvoice_save t2 tbl' b = Inl IntegrityError"
    unfolding XRechnungInvoice_save_def Let_def
    by (rule Model_save_invoice_duplicate) (use ex h in \<open>auto split: if_splits\<close>)
next
  assume h: "item_pk c = None \<and> item_pk d = None \<and> invoice_id d = invoice_id c \<and>
      position d = position c \<and> XRechnungLineItem_save items c = Inr (items', c')"
  then obtain c0 where "Model_save_line_item items c0 = Inr (items', c')"
    and "invoice_id c0 = invoice_id c" "position c0 = position c"
    by (auto simp: XRechnungLineItem_save_def Let_def split: if_splits)
  from Model_save_line_item_stores[OF this(1)] this(2,3) h
  have ex: "\<exists>r \<in> set items'. invoice_id r = invoice_id d \<and> position r = position d" by simp
  show "XRechnungLineItem_save items' d = Inl IntegrityError"
    unfolding XRechnungLineItem_save_def Let_def
    by (rule Model_save_line_item_duplicate) (use ex h in \<open>auto split: if_splits\<close>)
qed

theorem duplicate_create_raises_IntegrityError_witness:
  "XRechnungInvoice_save 7 [] invoice_2024_004 =
     Inr ([invoice_2024_004\<lparr>pk := Some 1, created_at := 7, updated_at := 7\<rparr>],
          invoice_2024_004\<lparr>pk := Some 1, created_at := 7, updated_at := 7\<rparr>) \<and>
   XRechnungInvoice_save 8 [invoice_2024_004\<lparr>pk := Some 1, created_at := 7, updated_at := 7\<rparr>]
     invoice_2024_004_again = Inl IntegrityError \<and>
   XRechnungLineItem_save [] product_1 =
     Inr ([product_1\<lparr>item_pk := Some 1\<rparr>], product_1\<lparr>item_pk := Some 1\<rparr>) \<and>
   XRechnungLineItem_save [product_1\<lparr>item_pk := Some 1\<rparr>] product_2 = Inl IntegrityError"
proof -
  have a: "pk invoice_2024_004 = None \<and> pk invoice_2024_004_again = None \<and>
      invoice_number invoice_2024_004_again = invoice_number invoice_2024_004"
    by (simp add: invoice_2024_004_def invoice_2024_004_again_def XRechnungInvoice_init_def)
  have b: "item_pk product_1 = None \<and> item_pk product_2 = None \<and>
      invoice_id product_2 = invoice_id product_1 \<and> position product_2 = position product_1"
    by (simp add: product_1_def product_2_def XRechnungLineItem_init_def)
  note t = duplicate_create_raises_IntegrityError
    [of invoice_2024_004 invoice_2024_004_again 7 "[]"
        "[invoice_2024_004\<lparr>pk := Some 1, created_at := 7, updated_at := 7\<rparr>]"
        "invoice_2024_004\<lparr>pk := Some 1, created_at := 7, updated_at := 7\<rparr>" 8
        product_1 product_2 "[]" "[product_1\<lparr>item_pk := Some 1\<rparr>]"
        "product_1\<lparr>item_pk := Some 1\<rparr>"]
  from t have
    "pk invoice_2024_004 = None \<and> pk invoice_2024_004_again = None \<and>
       invoice_number invoice_2024_004_again = invoice_number invoice_2024_004 \<and>
       XRechnungInvoice_save 7 [] invoice_2024_004 =
         Inr ([invoice_2024_004\<lparr>pk := Some 1, created_at := 7, updated_at := 7\<rparr>],
              invoice_2024_004\<lparr>pk := Some 1, created_at := 7, updated_at := 7\<rparr>)
     \<longrightarrow> XRechnungInvoice_save 8
           [invoice_2024_004\<lparr>pk := Some 1, created_at := 7, updated_at := 7\<rparr>]
           invoice_2024_004_again = Inl IntegrityError"
    and "item_pk product_1 = None \<and> item_pk product_2 = None \<and>
       invoice_id product_2 = invoice_id product_1 \<and>
       position product_2 = position product_1 \<and>
       XRechnungLineItem_save [] product_1 =
         Inr ([product_1\<lparr>item_pk := Some 1\<rparr>], product_1\<lparr>item_pk := Some 1\<rparr>)
     \<longrightarrow> XRechnungLineItem_save [product_1\<lparr>item_pk := Some 1\<rparr>] product_2 =
           Inl IntegrityError"
    by blast+
  with a b save_invoice_2024_004 save_product_1 show ?thesis by blast
qed

text \<open>
  C7. Whatever query parameters \<open>supplier\<close>, \<open>start_date\<close> and \<open>end_date\<close> are
  given or left out, provided the dates that are given are dates the framework can
  read, the list view returns exactly the invoices of the table (each once) whose
  supplier name contains the supplier string without regard to case and whose invoice
  date lies within the inclusive bounds, a parameter that is not given constraining
  nothing; the result is ordered by invoice date descending, then creation time
  descending.
\<close>

theorem get_queryset_filters_and_orders:
  assumes "map_option to_python (param req ''start_date'') = map_option Some lo"
    and "map_option to_python (param req ''end_date'') = map_option Some hi"
  shows "\<exists>result. get_queryset to_python req tbl = Inr result \<and>
    mset result = mset (filter (matches (GET req ''supplier'') lo hi) tbl) \<and>
    sorted_wrt comes_before result"
proof -
  define q0 where "q0 = Meta_ordering tbl"
  define q1 where "q1 = (if truthy_str (GET req ''supplier'')
             then filter (\<lambda>i. icontains (supplier_name i) (the (GET req ''supplier''))) q0
             else q0)"
  have q1: "q1 = filter (\<lambda>i. case GET req ''supplier'' of None \<Rightarrow> True | Some s \<Rightarrow> icontains (supplier_name i) s) q0"
    by (auto simp: q1_def truthy_str_def icontains_empty split: option.splits)
  define q2 where "q2 = filter (\<lambda>i. case lo of None \<Rightarrow> True | Some d \<Rightarrow> date_key d \<le> date_key (invoice_date i)) q1"
  have s: "(if truthy_str (GET req ''start_date'')
               then filter_invoice_date to_python date_gte (the (GET req ''start_date'')) q1
               else Inr q1) = Inr q2"
    using assms(1)
    by (cases lo) (auto simp: param_def truthy_str_def filter_invoice_date_def q2_def date_gte_def
        split: if_splits option.splits)
  define q3 where "q3 = filter (\<lambda>i. case hi of None \<Rightarrow> True | Some d \<Rightarrow> date_key (invoice_date i) \<le> date_key d) q2"
  have e: "(if truthy_str (GET req ''end_date'')
               then filter_invoice_date to_python date_lte (the (GET req ''end_date'')) q2
               else Inr q2) = Inr q3"
    using assms(2)
    by (cases hi) (auto simp: param_def truthy_str_def filter_invoice_date_def q3_def date_lte_def
        split: if_splits option.splits)
  have r: "get_queryset to_python req tbl = Inr q3"
    unfolding get_queryset_def Let_def
    unfolding q0_def[symmetric] q1_def[symmetric] s sum.case e ..
  have "q3 = filter (matches (GET req ''supplier'') lo hi) q0"
    unfolding q3_def q2_def q1 matches_def by (simp add: conj_commute conj_left_commute)
  then have m: "mset q3 = mset (filter (matches (GET req ''supplier'') lo hi) tbl)"
    and o: "sorted_wrt comes_before q3"
    by (simp_all add: q0_def mset_Meta_ordering sorted_Meta_ordering sorted_wrt_filter)
  from r m o show ?thesis by blast
qed

theorem get_queryset_filters_and_orders_witness:
  "get_queryset to_python_fixture
     (GET_request False [(''supplier'', ''Test Supplier''), (''start_date'', ''2024-03-15'')])
     test_invoices = Inr [invoice_test_001_saved] \<and>
   get_queryset to_python_fixture (GET_request False []) test_invoices =
     Inr [invoice_test_002_saved, invoice_test_001_saved]"
proof -
  let ?r1 = "GET_request False [(''supplier'', ''Test Supplier''), (''start_date'', ''2024-03-15'')]"
  let ?r2 = "GET_request False []"
  have h1: "map_option to_python_fixture (param ?r1 ''start_date'') = map_option Some (Some today)"
    "map_option to_python_fixture (param ?r1 ''end_date'') = map_option Some None"
    by (simp_all add: param_def truthy_str_def GET_request_def to_python_fixture_def)
  have h2: "map_option to_python_fixture (param ?r2 ''start_date'') = map_option Some None"
    "map_option to_python_fixture (param ?r2 ''end_date'') = map_option Some None"
    by (simp_all add: param_def truthy_str_def GET_request_def)
  have s1: "GET ?r1 ''supplier'' = Some ''Test Supplier''" and s2: "GET ?r2 ''supplier'' = None"
    by (simp_all add: GET_request_def)
  have f1: "filter (matches (Some ''Test Supplier'') (Some today) None) test_invoices =
      [invoice_test_001_saved]"
    by (simp add: test_invoices_def matches_def test_invoices_fields icontains_test_supplier not_icontains_another_supplier)
  have f2: "filter (matches None None None) test_invoices = test_invoices"
    by (simp add: matches_def)
  from get_queryset_filters_and_orders [OF h1, of test_invoices]
  obtain r1 where r1: "get_queryset to_python_fixture ?r1 test_invoices = Inr r1"
    and m1: "mset r1 = mset [invoice_test_001_saved]"
    unfolding s1 f1 by blast
  from m1 have "r1 = [invoice_test_001_saved]" by simp
  with r1 have one: "get_queryset to_python_fixture ?r1 test_invoices = Inr [invoice_test_001_saved]"
    by simp
  from get_queryset_filters_and_orders [OF h2, of test_invoices]
  obtain r2 where r2: "get_queryset to_python_fixture ?r2 test_invoices = Inr r2"
    and m2: "mset r2 = mset test_invoices" and o2: "sorted_wrt comes_before r2"
    unfolding s2 f2 by blast
  have nb: "\<not> comes_before invoice_test_001_saved invoice_test_002_saved"
    by (simp add: comes_before_def ordering_key_def test_invoices_fields)
  from m2 have "length r2 = 2" "set r2 = {invoice_test_001_saved, invoice_test_002_saved}"
    using mset_eq_length[OF m2] mset_eq_setD[OF m2] by (auto simp: test_invoices_def)
  then obtain x y where xy: "r2 = [x, y]"
    by (metis (no_types, opaque_lifting) One_nat_def Suc_1 length_0_conv length_Suc_conv)
  with m2 o2 nb have "r2 = [invoice_test_002_saved, invoice_test_001_saved]"
    by (auto simp: test_invoices_def add_eq_conv_ex)
  with r2 one show ?thesis by simp
qed

text \<open>
  C8. The claim: when PAGINATION_SIZE is overridden in the settings or in
  pyproject.toml, the list page uses the configured page size. The code: the merged
  configuration does answer 50 for \<^verbatim>\<open>pagination_size\<close> when either source sets
  PAGINATION_SIZE to 50 (and 20 when none does), but the list view never reads it:
  its \<^verbatim>\<open>paginate_by\<close> is the literal 20.
\<close>

theorem list_view_page_size_ignores_configuration:
  "pagination_size (load_config [(''PAGINATION_SIZE'', CInt 50)] []) = CInt 50 \<and>
   pagination_size (load_config [] [(''PAGINATION_SIZE'', CInt 50)]) = CInt 50 \<and>
   pagination_size (load_config [] []) = CInt 20 \<and>
   paginate_by = 20"
  by (simp add: pagination_size_def load_config_def dict_update_def DEFAULT_CONFIG_def
      config_get_def paginate_by_def)

text \<open>
  C9, as amended. The admin form is where the invoice number is protected: for an
  existing invoice \<^verbatim>\<open>get_readonly_fields\<close> lists \<open>invoice_number\<close> among the
  read-only fields, for a new one it does not.
\<close>

theorem get_readonly_fields_invoice_number:
  "get_readonly_fields request (Some obj) =
     [''created_at'', ''updated_at'', ''net_amount'', ''invoice_number''] \<and>
   get_readonly_fields request None = [''created_at'', ''updated_at'', ''net_amount'']"
  by (simp add: get_readonly_fields_def readonly_fields_def)

text \<open>
  C9 as stated fails: \<^verbatim>\<open>save\<close> does not protect the invoice number. Saving the
  stored invoice INV-2024-002 (primary key 1) after its \<open>invoice_number\<close> attribute
  was set to INV-2024-999 updates the row, which then carries the new number.
\<close>

theorem invoice_number_changed_by_save:
  "XRechnungInvoice_save 9 [invoice_2024_002_saved]
     (invoice_2024_002_saved\<lparr>invoice_number := ''INV-2024-999''\<rparr>) =
     Inr ([invoice_2024_002_saved\<lparr>invoice_number := ''INV-2024-999'', updated_at := 9\<rparr>],
          invoice_2024_002_saved\<lparr>invoice_number := ''INV-2024-999'', updated_at := 9\<rparr>) \<and>
   pk invoice_2024_002_saved = Some 1 \<and>
   pk (invoice_2024_002_saved\<lparr>invoice_number := ''INV-2024-999'', updated_at := 9\<rparr>) = Some 1 \<and>
   invoice_number invoice_2024_002_saved = ''INV-2024-002'' \<and>
   invoice_number (invoice_2024_002_saved\<lparr>invoice_number := ''INV-2024-999'', updated_at := 9\<rparr>) =
     ''INV-2024-999''"
  by (simp add: XRechnungInvoice_save_def invoice_2024_002_def invoice_2024_002_saved_def
      XRechnungInvoice_init_def Model_save_invoice_def update_invoice_def)
    (simp add: Let_def)

text \<open>
  C10. For an authenticated GET of the detail API of a stored invoice, the JSON
  object maps \<open>net_amount\<close> to the string "None" when the invoice has no net amount, and
  \<open>due_date\<close> to null when it has no due date; the entry of every line item without a
  line total maps \<open>line_total\<close> to the string "None". Such invoices exist: INV-TEST-002,
  saved with the default tax amount 0, is stored without a net amount, and a line item
  with unit price 0.00 is stored without a line total.
\<close>

theorem invoice_detail_api_null_amounts:
  assumes "http_method req = ''GET''" and "user_is_authenticated req"
    and "get_object_or_404 tbl k = Inr invoice"
  shows "\<exists>data.
    invoice_detail_api req tbl items k = Inr (JsonResponse (JDict data) 200) \<and>
    (net_amount invoice = None \<longrightarrow> map_of data ''net_amount'' = Some (JStr ''None'')) \<and>
    (due_date invoice = None \<longrightarrow> map_of data ''due_date'' = Some JNull) \<and>
    map_of data ''line_items'' =
      Some (JList (map (\<lambda>item. JDict (line_item_data item)) (line_items_all items k))) \<and>
    (\<forall>item \<in> set (line_items_all items k). line_total item = None \<longrightarrow>
       map_of (line_item_data item) ''line_total'' = Some (JStr ''None''))"
proof -
  have "invoice_detail_api req tbl items k =
      Inr (JsonResponse (JDict (invoice_data invoice (line_items_all items k))) 200)"
    using assms by (simp add: invoice_detail_api_def)
  then show ?thesis
    by (simp add: invoice_data_def line_item_data_def py_str_def isoformat_or_None_def)
qed

theorem invoice_detail_api_null_amounts_witness:
  "XRechnungInvoice_save 6 [invoice_test_001_saved] invoice_test_002 =
     Inr (test_invoices, invoice_test_002_saved) \<and>
   XRechnungLineItem_save [] free_line_item =
     Inr ([free_line_item_saved], free_line_item_saved) \<and>
   (\<exists>data.
      invoice_detail_api (GET_request True []) test_invoices [free_line_item_saved] 2 =
        Inr (JsonResponse (JDict data) 200) \<and>
      map_of data ''net_amount'' = Some (JStr ''None'') \<and>
      map_of data ''due_date'' = Some JNull \<and>
      map_of data ''line_items'' = Some (JList [JDict (line_item_data free_line_item_saved)]) \<and>
      map_of (line_item_data free_line_item_saved) ''line_total'' = Some (JStr ''None''))"
proof -
  have g: "http_method (GET_request True []) = ''GET''"
    "user_is_authenticated (GET_request True [])"
    by (simp_all add: GET_request_def)
  have n: "net_amount invoice_test_002_saved = None" "due_date invoice_test_002_saved = None"
    by (simp_all add: invoice_test_002_saved_def invoice_test_002_def XRechnungInvoice_init_def)
  have l: "line_items_all [free_line_item_saved] 2 = [free_line_item_saved]"
    by (simp add: line_items_all_def free_line_item_saved_def free_line_item_def
        XRechnungLineItem_init_def)
  have t: "line_total free_line_item_saved = None"
    by (simp add: free_line_item_saved_def free_line_item_def XRechnungLineItem_init_def)
  from invoice_detail_api_null_amounts [OF g get_test_invoices(2), of "[free_line_item_saved]"]
  obtain data where
    "invoice_detail_api (GET_request True []) test_invoices [free_line_item_saved] 2 =
       Inr (JsonResponse (JDict data) 200)"
    "map_of data ''net_amount'' = Some (JStr ''None'')"
    "map_of data ''due_date'' = Some JNull"
    "map_of data ''line_items'' = Some (JList [JDict (line_item_data free_line_item_saved)])"
    "map_of (line_item_data free_line_item_saved) ''line_total'' = Some (JStr ''None'')"
    unfolding l using n t by auto
  with save_invoice_test_002 save_free_line_item show ?thesis by blast
qed

end
